theory Spec2Isabelle
  imports Main "HOL-Library.AList" "HOL-Library.Multiset"
begin

section \<open>The service scheduler of \<^verbatim>\<open>scheduler/service_sched.go\<close>\<close>

text \<open>
  The file under verification holds the dispatcher \<^verbatim>\<open>Process\<close>, the register
  handler with its bounded \<^verbatim>\<open>goto START\<close> loop, the assembly of the iterator
  stack, the per-allocation placement loop and the evict-all handler. Everything
  else it touches (package \<^verbatim>\<open>structs\<close>, the state store, the planner, the
  iterators, the helpers of \<^verbatim>\<open>util.go\<close>) is declared outside the file. Objects
  behind an interface (state snapshot, planner, plan result) are records of the
  functions the file calls on them; helpers the specification describes are
  written from its words and marked so; what the specification leaves open
  (the diff's equivalence test, node selection, id generation, the float
  computation of the limit) is a field of the record \<open>Externals\<close>.
\<close>

subsection \<open>Errors, outcomes and log lines\<close>

text \<open>
  An error handed back by a collaborator (state store, planner) is opaque to
  the file: it is kept as its message. \<open>error\<close> is an error returned by the
  file: \<open>ExternalError\<close> passes a collaborator's error on unchanged, the other
  constructors are the \<^verbatim>\<open>fmt.Errorf\<close> calls of the file, carrying the
  arguments of the format string.
\<close>

type_synonym ext_error = string

datatype error =
    ExternalError ext_error
  | UnsupportedTrigger string
  | MaxAttemptsReached nat
  | GetJobFailed string ext_error
  | GetAllocsFailed string ext_error
  | IterStackFailed ext_error
  | PlanAllocsFailed error

text \<open>
  What a call of a function of result type \<^verbatim>\<open>error\<close> does: it returns
  \<^verbatim>\<open>nil\<close>, it returns an error, or it panics on a nil pointer.
\<close>

datatype outcome = ReturnNil | ReturnErr error | Panic

subsection \<open>Package structs\<close>

text \<open>
  Only the fields the file reads or writes, and those the helpers described in
  the specification need, are kept. The resource type \<open>'r\<close> is a parameter:
  the file only creates the zero resource and calls \<^verbatim>\<open>Add\<close> on it.
\<close>

record Constraint =
  con_Attribute :: string
  con_Operator :: string
  con_Value :: string

record 'r Task =
  task_Name :: string
  task_Driver :: string
  task_Resources :: 'r
  task_Constraints :: "Constraint list"

record 'r TaskGroup =
  tg_Name :: string
  tg_Count :: int
  tg_Constraints :: "Constraint list"
  tg_Tasks :: "'r Task list"

record 'r Job =
  job_ID :: string
  job_Priority :: int
  job_Datacenters :: "string list"
  job_Constraints :: "Constraint list"
  job_TaskGroups :: "'r TaskGroup list"

datatype NodeStatus = NodeStatusInit | NodeStatusReady | NodeStatusDown | NodeStatusDrain

record Node =
  node_ID :: string
  node_Datacenter :: string
  node_Status :: NodeStatus

datatype AllocStatus = AllocStatusPending | AllocStatusRunning | AllocStatusEvict

type_synonym AllocMetric = unit

record 'r Allocation =
  alloc_ID :: string
  alloc_Name :: string
  alloc_NodeID :: string
  alloc_JobID :: string
  alloc_Job :: "'r Job"
  alloc_Resources :: 'r
  alloc_Metrics :: "AllocMetric option"
  alloc_Status :: AllocStatus

datatype EvalTrigger =
    EvalTriggerJobRegister
  | EvalTriggerJobDeregister
  | EvalTriggerNodeUpdate
  | EvalTriggerOther string

record Evaluation =
  eval_ID :: string
  eval_Priority :: int
  eval_TriggeredBy :: EvalTrigger
  eval_JobID :: string

text \<open>
  A plan: the two Go maps keyed by node id are association lists, read with
  \<open>map_of\<close> and written with \<open>AList.update\<close>, so that a key occurs once.
\<close>

record 'r Plan =
  plan_EvalID :: string
  plan_Priority :: int
  NodeEvict :: "(string \<times> string list) list"
  NodeAllocation :: "(string \<times> 'r Allocation list) list"

text \<open>
  Modelled from the spec: \<^verbatim>\<open>Plan.AppendEvict\<close> and \<^verbatim>\<open>Plan.AppendAlloc\<close>
  are missing from the sources. The plan carries "a mapping node \<open>\<rightarrow>\<close> list of
  allocation ids to evict, and a mapping node \<open>\<rightarrow>\<close> list of allocations to create";
  appending adds the entry at the end of the list of the allocation's node.
\<close>

definition AppendEvict :: "'r Plan \<Rightarrow> 'r Allocation \<Rightarrow> 'r Plan" where
  "AppendEvict plan alloc =
     (let node = alloc_NodeID alloc;
          existing = (case map_of (NodeEvict plan) node of None \<Rightarrow> [] | Some ids \<Rightarrow> ids)
      in plan\<lparr>NodeEvict := AList.update node (existing @ [alloc_ID alloc]) (NodeEvict plan)\<rparr>)"

definition AppendAlloc :: "'r Plan \<Rightarrow> 'r Allocation \<Rightarrow> 'r Plan" where
  "AppendAlloc plan alloc =
     (let node = alloc_NodeID alloc;
          existing = (case map_of (NodeAllocation plan) node of None \<Rightarrow> [] | Some as \<Rightarrow> as)
      in plan\<lparr>NodeAllocation := AList.update node (existing @ [alloc]) (NodeAllocation plan)\<rparr>)"

text \<open>
  Modelled from the spec: \<^verbatim>\<open>Evaluation.MakePlan\<close> is missing from the sources.
  It creates "a fresh plan scoped to the eval": the evaluation's id and priority
  and two empty maps.
\<close>

definition MakePlan :: "Evaluation \<Rightarrow> 'r Job \<Rightarrow> 'r Plan" where
  "MakePlan eval job =
     \<lparr>plan_EvalID = eval_ID eval, plan_Priority = eval_Priority eval,
      NodeEvict = [], NodeAllocation = []\<rparr>"

text \<open>The entries of a plan, flattened: evictions as (node, id), pending allocations.\<close>

definition evict_entries :: "'r Plan \<Rightarrow> (string \<times> string) list" where
  "evict_entries plan = concat (map (\<lambda>(node, ids). map (Pair node) ids) (NodeEvict plan))"

definition pending :: "'r Plan \<Rightarrow> 'r Allocation list" where
  "pending plan = concat (map snd (NodeAllocation plan))"

subsection \<open>State snapshot and planner\<close>

text \<open>
  The \<^verbatim>\<open>State\<close> interface: a snapshot answers the three reads of the file.
  \<^verbatim>\<open>NodesByDatacenterStatus\<close> returns an iterator that the file drains; the
  record holds the list of nodes it yields.
\<close>

record 'r State =
  GetJobByID :: "string \<Rightarrow> ext_error + 'r Job option"
  AllocsByJob :: "string \<Rightarrow> ext_error + 'r Allocation list"
  NodesByDatacenterStatus :: "string \<Rightarrow> NodeStatus \<Rightarrow> ext_error + Node list"

text \<open>
  \<^verbatim>\<open>PlanResult\<close> is opaque to the file, which only calls
  \<^verbatim>\<open>FullCommit(plan)\<close> on it: (fully committed, expected, actual).
\<close>

record 'r PlanResult =
  FullCommit :: "'r Plan \<Rightarrow> bool \<times> int \<times> int"

text \<open>
  \<^verbatim>\<open>SubmitPlan\<close> returns \<^verbatim>\<open>(planResult, newState, err)\<close>; the first two are
  read only when \<^verbatim>\<open>err\<close> is nil, and \<^verbatim>\<open>newState\<close> may be nil.
\<close>

datatype 'r SubmitResult =
    SubmitErr ext_error
  | SubmitOk "'r PlanResult" "'r State option"

text \<open>
  The planner is an object with hidden state. Its answer may depend on every
  plan submitted to it before, so it is modelled by the function \<open>respond\<close> of
  the earlier plans and the current one, with the list \<open>submitted\<close> of the plans
  received so far (oldest first), which also records every call.
\<close>

record 'r Planner =
  respond :: "'r Plan list \<Rightarrow> 'r Plan \<Rightarrow> 'r SubmitResult"
  submitted :: "'r Plan list"

definition SubmitPlan :: "'r Planner \<Rightarrow> 'r Plan \<Rightarrow> 'r SubmitResult \<times> 'r Planner" where
  "SubmitPlan p plan =
     (respond p (submitted p) plan, p\<lparr>submitted := submitted p @ [plan]\<rparr>)"

subsection \<open>The scheduler\<close>

text \<open>
  \<^verbatim>\<open>allocNameID\<close> is declared outside the file, which reads its \<^verbatim>\<open>Name\<close> and
  prints the whole value in one log line.
\<close>

record allocNameID =
  Name :: string

text \<open>The \<^verbatim>\<open>Printf\<close> calls of the file, with the arguments of the format string.\<close>

datatype LogLine =
    LogJobNotFound string string
  | LogNeeds string string nat nat nat nat
  | LogFailedToPlace allocNameID string
  | LogPartialCommit string string int int
  | LogNeedsEvictions string string nat

text \<open>
  The struct \<^verbatim>\<open>ServiceScheduler\<close>: the logger is the list of lines printed so
  far. \<open>uuids\<close> is not a field of the struct: it counts the ids drawn from the
  process-wide generator \<^verbatim>\<open>mock.GenerateUUID\<close>.
\<close>

record 'r ServiceScheduler =
  logger :: "LogLine list"
  state :: "'r State"
  planner :: "'r Planner"
  uuids :: nat

definition Printf :: "LogLine \<Rightarrow> 'r ServiceScheduler \<Rightarrow> 'r ServiceScheduler" where
  "Printf line s = s\<lparr>logger := logger s @ [line]\<rparr>"

definition maxScheduleAttempts :: nat where
  "maxScheduleAttempts = 5"

subsection \<open>evictJobAllocs\<close>

text \<open>
  The body of \<^verbatim>\<open>evictJobAllocs\<close> from the label \<^verbatim>\<open>START\<close> to the call of
  \<^verbatim>\<open>SubmitPlan\<close>: the plan literal of lines 320-324 and the loop of lines 327-329.
\<close>

definition evictPlan :: "Evaluation \<Rightarrow> 'r Allocation list \<Rightarrow> 'r Plan" where
  "evictPlan eval allocs =
     foldl AppendEvict
       \<lparr>plan_EvalID = eval_ID eval, plan_Priority = eval_Priority eval,
        NodeEvict = [], NodeAllocation = []\<rparr>
       allocs"

text \<open>
  The loop has no counter, so it may run forever: the function is partial, and
  \<open>None\<close> is the run that never returns.
\<close>

partial_function (option) evictJobAllocs ::
  "Evaluation \<Rightarrow> 'r ServiceScheduler \<Rightarrow> (outcome \<times> 'r ServiceScheduler) option" where
  "evictJobAllocs eval s =
     (case AllocsByJob (state s) (eval_JobID eval) of
        Inl err \<Rightarrow> Some (ReturnErr (GetAllocsFailed (eval_JobID eval) err), s)
      | Inr allocs \<Rightarrow>
          (let s1 = Printf (LogNeedsEvictions (eval_ID eval) (eval_JobID eval) (length allocs)) s
           in if length allocs = 0 then Some (ReturnNil, s1)
              else
                (case SubmitPlan (planner s1) (evictPlan eval allocs) of
                   (SubmitErr err, p) \<Rightarrow> Some (ReturnErr (ExternalError err), s1\<lparr>planner := p\<rparr>)
                 | (SubmitOk planResult newState, p) \<Rightarrow>
                     (case newState of
                        Some st \<Rightarrow> evictJobAllocs eval (s1\<lparr>planner := p, state := st\<rparr>)
                      | None \<Rightarrow> Some (ReturnNil, s1\<lparr>planner := p\<rparr>)))))"

subsection \<open>Helpers of the diff engine\<close>

text \<open>\<^verbatim>\<open>%d\<close> of a non-negative integer.\<close>

fun decimal :: "nat \<Rightarrow> string" where
  "decimal n =
     (if n < 10 then [''0123456789'' ! n]
      else decimal (n div 10) @ [''0123456789'' ! (n mod 10)])"

declare decimal.simps [simp del]

text \<open>
  Modelled from the spec: \<^verbatim>\<open>materializeTaskGroups\<close> is missing from the
  sources. It "expands each TaskGroup into \<open>count\<close> allocation names
  \<open><jobID>.<group>[<i>]\<close>", in group order then index order; the result is the
  Go map from name to task group.
\<close>

definition allocName :: "string \<Rightarrow> string \<Rightarrow> nat \<Rightarrow> string" where
  "allocName jobID grp i = jobID @ ''.'' @ grp @ ''['' @ decimal i @ '']''"

definition materializeTaskGroups :: "'r Job \<Rightarrow> (string \<times> 'r TaskGroup) list" where
  "materializeTaskGroups job =
     foldl (\<lambda>out tg.
              foldl (\<lambda>out i. AList.update (allocName (job_ID job) (tg_Name tg) i) tg out)
                out [0 ..< nat (tg_Count tg)])
       [] (job_TaskGroups job)"

text \<open>
  Modelled from the spec: \<^verbatim>\<open>indexAllocs\<close> is missing from the sources. It
  "keys by allocation name; the latest allocation wins if duplicates".
\<close>

definition indexAllocs :: "'r Allocation list \<Rightarrow> (string \<times> 'r Allocation) list" where
  "indexAllocs allocs = foldl (\<lambda>out alloc. AList.update (alloc_Name alloc) alloc out) [] allocs"

text \<open>
  Modelled from the spec: \<^verbatim>\<open>addEvictsToPlan\<close> is missing from the sources. It
  appends the indexed allocation of each given name as an eviction; a name
  without an indexed allocation has nothing to append.
\<close>

definition addEvictsToPlan ::
  "'r Plan \<Rightarrow> allocNameID list \<Rightarrow> (string \<times> 'r Allocation) list \<Rightarrow> 'r Plan" where
  "addEvictsToPlan plan evicts indexed =
     foldl (\<lambda>p e. case map_of indexed (Name e) of
                     None \<Rightarrow> p
                   | Some alloc \<Rightarrow> AppendEvict p alloc)
       plan evicts"

subsection \<open>The iterator stack\<close>

text \<open>
  The struct \<^verbatim>\<open>IteratorStack\<close>. Each iterator is kept as the parameters its
  constructor or setter received: the context as the snapshot it is bound to
  (its plan is the plan under construction, which \<open>planAllocations\<close> passes
  along), the constraint and driver filters as their lists, the bin-pack
  iterator as its three arguments, the limit iterator as its limit. What the
  chain remembers between calls (the shuffled order and the offset of the
  source, the count of the limit, the best option seen) is the opaque
  component \<open>iterators\<close>.
\<close>

record ('r, 'i) IteratorStack =
  Context :: "'r State"
  BaseNodes :: "Node list"
  JobConstraint :: "Constraint list"
  TaskGroupDrivers :: "string set"
  TaskGroupConstraint :: "Constraint list"
  BinPack_Resources :: "'r option"
  BinPack_Evict :: bool
  BinPack_Priority :: int
  Limit :: int
  iterators :: 'i

record RankedNode =
  rn_Node :: Node

text \<open>
  What the file calls and neither the sources nor the specification determine:
  \<^item> \<open>diffAllocs\<close>: the diff of required and indexed allocations, as
    (place, update, evict, ignore);
  \<^item> \<open>GenerateUUID\<close>: the \<open>n\<close>-th id drawn from \<^verbatim>\<open>mock.GenerateUUID\<close>;
  \<^item> \<open>CeilLog2 n\<close>: the float computation
    \<^verbatim>\<open>int(math.Ceil(math.Log2(float64(n))))\<close>;
  \<^item> \<open>NewIterators\<close>: the run-time state of a newly built chain (the random
    source is process-wide, so it may depend on everything done so far);
  \<^item> \<open>MaxScore_Reset\<close>, \<open>MaxScore_Next\<close>: \<^verbatim>\<open>stack.MaxScore.Reset()\<close> and
    \<^verbatim>\<open>stack.MaxScore.Next()\<close> on a stack and the plan its context points to.
\<close>

record ('r, 'i) Externals =
  diffAllocs :: "'r Job \<Rightarrow> (string \<times> 'r TaskGroup) list \<Rightarrow> (string \<times> 'r Allocation) list \<Rightarrow>
                 allocNameID list \<times> allocNameID list \<times> allocNameID list \<times> allocNameID list"
  GenerateUUID :: "nat \<Rightarrow> string"
  CeilLog2 :: "nat \<Rightarrow> int"
  NewIterators :: "'r ServiceScheduler \<Rightarrow> Node list \<Rightarrow> 'i"
  MaxScore_Reset :: "'i \<Rightarrow> 'i"
  MaxScore_Next :: "('r, 'i) IteratorStack \<Rightarrow> 'r Plan \<Rightarrow> RankedNode option \<times> 'i"

fun baseNodes_from ::
  "'r State \<Rightarrow> string list \<Rightarrow> Node list \<Rightarrow> ext_error + Node list" where
  "baseNodes_from st [] out = Inr out"
| "baseNodes_from st (dc # dcs) out =
     (case NodesByDatacenterStatus st dc NodeStatusReady of
        Inl err \<Rightarrow> Inl err
      | Inr nodes \<Rightarrow> baseNodes_from st dcs (out @ nodes))"

definition baseNodes :: "'r ServiceScheduler \<Rightarrow> 'r Job \<Rightarrow> ext_error + Node list" where
  "baseNodes s job = baseNodes_from (state s) (job_Datacenters job) []"

definition iterStack ::
  "('r, 'i) Externals \<Rightarrow> 'r ServiceScheduler \<Rightarrow> 'r Job \<Rightarrow> 'r Plan \<Rightarrow>
   ext_error + ('r, 'i) IteratorStack" where
  "iterStack X s job plan =
     (case baseNodes s job of
        Inl err \<Rightarrow> Inl err
      | Inr nodes \<Rightarrow>
          (let limit = 2;
               n = length nodes;
               limit = (if n > 0
                        then (let logLimit = CeilLog2 X n
                              in if logLimit > limit then logLimit else limit)
                        else limit)
           in Inr \<lparr>Context = state s, BaseNodes = nodes,
                   JobConstraint = job_Constraints job,
                   TaskGroupDrivers = {}, TaskGroupConstraint = [],
                   BinPack_Resources = None, BinPack_Evict = False,
                   BinPack_Priority = job_Priority job,
                   Limit = limit, iterators = NewIterators X s nodes\<rparr>))"

subsection \<open>planAllocations\<close>

text \<open>
  The loop over \<^verbatim>\<open>place\<close>. A name that is not a key of \<^verbatim>\<open>groups\<close> reads the
  nil task group, and the next line dereferences it: the call panics. The three
  folds are the loop over the tasks of lines 259-263.
\<close>

fun planAllocations ::
  "('r::{zero,plus}, 'i) Externals \<Rightarrow> ('r, 'i) IteratorStack \<Rightarrow> 'r Job \<Rightarrow> 'r Plan \<Rightarrow>
   allocNameID list \<Rightarrow> (string \<times> 'r TaskGroup) list \<Rightarrow> 'r ServiceScheduler \<Rightarrow>
   outcome \<times> ('r, 'i) IteratorStack \<times> 'r Plan \<times> 'r ServiceScheduler" where
  "planAllocations X stack job plan [] groups s = (ReturnNil, stack, plan, s)"
| "planAllocations X stack job plan (missing # place) groups s =
     (case map_of groups (Name missing) of
        None \<Rightarrow> (Panic, stack, plan, s)
      | Some taskGroup \<Rightarrow>
          (let constr = foldl (\<lambda>c task. c @ task_Constraints task)
                          (tg_Constraints taskGroup) (tg_Tasks taskGroup);
               drivers = foldl (\<lambda>d task. insert (task_Driver task) d) {} (tg_Tasks taskGroup);
               size = foldl (\<lambda>r task. r + task_Resources task) 0 (tg_Tasks taskGroup);
               stack = stack\<lparr>iterators := MaxScore_Reset X (iterators stack)\<rparr>;
               stack = stack\<lparr>TaskGroupDrivers := drivers\<rparr>;
               stack = stack\<lparr>TaskGroupConstraint := constr\<rparr>;
               stack = stack\<lparr>BinPack_Resources := Some size\<rparr>;
               found = MaxScore_Next X stack plan;
               stack = stack\<lparr>iterators := snd found\<rparr>
           in case fst found of
                None \<Rightarrow>
                  planAllocations X stack job plan place groups
                    (Printf (LogFailedToPlace missing (job_ID job)) s)
              | Some option \<Rightarrow>
                  planAllocations X stack job
                    (AppendAlloc plan
                       \<lparr>alloc_ID = GenerateUUID X (uuids s),
                        alloc_Name = Name missing,
                        alloc_NodeID = node_ID (rn_Node option),
                        alloc_JobID = job_ID job,
                        alloc_Job = job,
                        alloc_Resources = size,
                        alloc_Metrics = None,
                        alloc_Status = AllocStatusPending\<rparr>)
                    place groups (s\<lparr>uuids := Suc (uuids s)\<rparr>)))"

subsection \<open>handleJobRegister\<close>

text \<open>
  How one pass through the body of \<^verbatim>\<open>handleJobRegister\<close> ends: with a
  \<^verbatim>\<open>return\<close> of a value, with \<^verbatim>\<open>return s.evictJobAllocs(eval)\<close>, or with
  \<^verbatim>\<open>goto START\<close>. The last carries the local \<^verbatim>\<open>stack\<close> as it is at the
  jump; the next pass declares a new one.
\<close>

datatype ('r, 'i) step =
    Return outcome "'r ServiceScheduler"
  | Delegate "'r ServiceScheduler"
  | GotoSTART "'r ServiceScheduler" "('r, 'i) IteratorStack"

text \<open>Lines 130-151: submit the plan and decide.\<close>

definition registerSubmit ::
  "Evaluation \<Rightarrow> ('r, 'i) IteratorStack \<Rightarrow> 'r Plan \<Rightarrow> 'r ServiceScheduler \<Rightarrow> ('r, 'i) step" where
  "registerSubmit eval stack plan s =
     (case SubmitPlan (planner s) plan of
        (SubmitErr err, p) \<Rightarrow> Return (ReturnErr (ExternalError err)) (s\<lparr>planner := p\<rparr>)
      | (SubmitOk planResult newState, p) \<Rightarrow>
          (case newState of
             Some st \<Rightarrow> GotoSTART (s\<lparr>planner := p, state := st\<rparr>) (stack\<lparr>Context := st\<rparr>)
           | None \<Rightarrow>
               (case FullCommit planResult plan of
                  (fullCommit, expected, actual) \<Rightarrow>
                    if \<not> fullCommit
                    then GotoSTART
                           (Printf (LogPartialCommit (eval_ID eval) (eval_JobID eval) expected actual)
                              (s\<lparr>planner := p\<rparr>))
                           stack
                    else Return ReturnNil (s\<lparr>planner := p\<rparr>))))"

text \<open>Lines 95-128: index, diff, build the plan and the stack, place.\<close>

definition registerPlan ::
  "('r::{zero,plus}, 'i) Externals \<Rightarrow> Evaluation \<Rightarrow> 'r Job \<Rightarrow> (string \<times> 'r TaskGroup) list \<Rightarrow>
   'r Allocation list \<Rightarrow> 'r ServiceScheduler \<Rightarrow> ('r, 'i) step" where
  "registerPlan X eval job groups allocs s =
     (let indexed = indexAllocs allocs
      in case diffAllocs X job groups indexed of
           (place, update, evict, ignore) \<Rightarrow>
             (let s = Printf (LogNeeds (eval_ID eval) (eval_JobID eval)
                                (length place) (length update) (length evict) (length ignore)) s
              in if length place = 0 \<and> length update = 0 \<and> length evict = 0
                 then Return ReturnNil s
                 else
                   (let plan = MakePlan eval job;
                        plan = addEvictsToPlan plan evict indexed;
                        plan = addEvictsToPlan plan update indexed;
                        place = place @ update
                    in case iterStack X s job plan of
                         Inl err \<Rightarrow> Return (ReturnErr (IterStackFailed err)) s
                       | Inr stack \<Rightarrow>
                           (case planAllocations X stack job plan place groups s of
                              (ReturnErr err, stack, plan, s) \<Rightarrow>
                                Return (ReturnErr (PlanAllocsFailed err)) s
                            | (Panic, stack, plan, s) \<Rightarrow> Return Panic s
                            | (ReturnNil, stack, plan, s) \<Rightarrow>
                                registerSubmit eval stack plan s))))"

text \<open>Lines 64-91: one pass of the body after \<^verbatim>\<open>attempts += 1\<close>.\<close>

definition registerAttempt ::
  "('r::{zero,plus}, 'i) Externals \<Rightarrow> Evaluation \<Rightarrow> 'r ServiceScheduler \<Rightarrow> ('r, 'i) step" where
  "registerAttempt X eval s =
     (case GetJobByID (state s) (eval_JobID eval) of
        Inl err \<Rightarrow> Return (ReturnErr (GetJobFailed (eval_JobID eval) err)) s
      | Inr None \<Rightarrow>
          Return ReturnNil (Printf (LogJobNotFound (eval_ID eval) (eval_JobID eval)) s)
      | Inr (Some job) \<Rightarrow>
          (let groups = materializeTaskGroups job
           in if length groups = 0 then Delegate s
              else
                (case AllocsByJob (state s) (eval_JobID eval) of
                   Inl err \<Rightarrow> Return (ReturnErr (GetAllocsFailed (eval_JobID eval) err)) s
                 | Inr allocs \<Rightarrow> registerPlan X eval job groups allocs s)))"

text \<open>
  The loop from the label \<^verbatim>\<open>START\<close>, entered with a value of \<^verbatim>\<open>attempts\<close>.
  Besides the outcome and the scheduler, the result holds the value of
  \<^verbatim>\<open>attempts\<close> at the return. The function is partial because the evict-all
  handler it may call is.
\<close>

partial_function (option) handleJobRegister_START ::
  "('r::{zero,plus}, 'i) Externals \<Rightarrow> Evaluation \<Rightarrow> nat \<Rightarrow> 'r ServiceScheduler \<Rightarrow>
   (outcome \<times> nat \<times> 'r ServiceScheduler) option" where
  "handleJobRegister_START X eval attempts s =
     (if attempts = maxScheduleAttempts
      then Some (ReturnErr (MaxAttemptsReached attempts), attempts, s)
      else
        (case registerAttempt X eval s of
           Return r s' \<Rightarrow> Some (r, attempts + 1, s')
         | Delegate s' \<Rightarrow>
             map_option (\<lambda>(r, s''). (r, attempts + 1, s'')) (evictJobAllocs eval s')
         | GotoSTART s' stack \<Rightarrow> handleJobRegister_START X eval (attempts + 1) s'))"

definition handleJobRegister ::
  "('r::{zero,plus}, 'i) Externals \<Rightarrow> Evaluation \<Rightarrow> 'r ServiceScheduler \<Rightarrow>
   (outcome \<times> 'r ServiceScheduler) option" where
  "handleJobRegister X eval s =
     map_option (\<lambda>(r, attempts, s'). (r, s')) (handleJobRegister_START X eval 0 s)"

subsection \<open>handleNodeUpdate and Process\<close>

definition handleNodeUpdate ::
  "Evaluation \<Rightarrow> 'r ServiceScheduler \<Rightarrow> outcome \<times> 'r ServiceScheduler" where
  "handleNodeUpdate eval s = (ReturnNil, s)"

definition Process ::
  "('r::{zero,plus}, 'i) Externals \<Rightarrow> Evaluation \<Rightarrow> 'r ServiceScheduler \<Rightarrow>
   (outcome \<times> 'r ServiceScheduler) option" where
  "Process X eval s =
     (case eval_TriggeredBy eval of
        EvalTriggerJobRegister \<Rightarrow> handleJobRegister X eval s
      | EvalTriggerJobDeregister \<Rightarrow> evictJobAllocs eval s
      | EvalTriggerNodeUpdate \<Rightarrow> Some (handleNodeUpdate eval s)
      | EvalTriggerOther reason \<Rightarrow> Some (ReturnErr (UnsupportedTrigger reason), s))"

subsection \<open>Observations used in the statements\<close>

text \<open>The ids a plan evicts on one node.\<close>

definition evictions_at :: "'r Plan \<Rightarrow> string \<Rightarrow> string list" where
  "evictions_at plan node =
     (case map_of (NodeEvict plan) node of None \<Rightarrow> [] | Some ids \<Rightarrow> ids)"

text \<open>The eviction entry that one name of the diff stands for: that of its indexed allocation.\<close>

definition evictEntry ::
  "(string \<times> 'r Allocation) list \<Rightarrow> allocNameID \<Rightarrow> (string \<times> string) list" where
  "evictEntry indexed e =
     (case map_of indexed (Name e) of
        None \<Rightarrow> []
      | Some alloc \<Rightarrow> [(alloc_NodeID alloc, alloc_ID alloc)])"

text \<open>
  \<open>blinded r0 s\<close> is the scheduler \<open>s\<close> with a planner that answers as that of
  \<open>s\<close> does, except that every plan result it hands back is replaced by \<open>r0\<close>.
\<close>

definition blind :: "'r PlanResult \<Rightarrow> 'r Planner \<Rightarrow> 'r Planner" where
  "blind r0 p =
     p\<lparr>respond := (\<lambda>earlier plan.
          case respond p earlier plan of
            SubmitErr err \<Rightarrow> SubmitErr err
          | SubmitOk planResult newState \<Rightarrow> SubmitOk r0 newState)\<rparr>"

definition blinded :: "'r PlanResult \<Rightarrow> 'r ServiceScheduler \<Rightarrow> 'r ServiceScheduler" where
  "blinded r0 s = s\<lparr>planner := blind r0 (planner s)\<rparr>"

text \<open>
  \<open>afterRestarts X eval k s\<close> is the scheduler after \<open>k\<close> passes of the body
  that all ended in \<^verbatim>\<open>goto START\<close>, and \<open>None\<close> if one of them ended otherwise.
\<close>

fun afterRestarts ::
  "('r::{zero,plus}, 'i) Externals \<Rightarrow> Evaluation \<Rightarrow> nat \<Rightarrow> 'r ServiceScheduler \<Rightarrow>
   'r ServiceScheduler option" where
  "afterRestarts X eval 0 s = Some s"
| "afterRestarts X eval (Suc k) s =
     (case registerAttempt X eval s of
        GotoSTART s' stack \<Rightarrow> afterRestarts X eval k s'
      | Return r s' \<Rightarrow> None
      | Delegate s' \<Rightarrow> None)"

subsection \<open>A small cluster for the examples\<close>

text \<open>
  One job \<open>web\<close> with one group of one task, one ready node, resources counted
  as natural numbers. The diff of the examples follows section 4.3 of the
  specification, taking an allocation as unchanged when it embeds the current job.
\<close>

definition ex_task :: "nat Task" where
  "ex_task = \<lparr>task_Name = ''server'', task_Driver = ''docker'', task_Resources = 3,
              task_Constraints = []\<rparr>"

definition ex_group :: "int \<Rightarrow> nat TaskGroup" where
  "ex_group n = \<lparr>tg_Name = ''fe'', tg_Count = n, tg_Constraints = [], tg_Tasks = [ex_task]\<rparr>"

definition ex_job :: "int \<Rightarrow> nat Job" where
  "ex_job n = \<lparr>job_ID = ''web'', job_Priority = 50, job_Datacenters = [''dc1''],
               job_Constraints = [], job_TaskGroups = [ex_group n]\<rparr>"

definition ex_node :: Node where
  "ex_node = \<lparr>node_ID = ''n1'', node_Datacenter = ''dc1'', node_Status = NodeStatusReady\<rparr>"

definition ex_alloc :: "string \<Rightarrow> string \<Rightarrow> string \<Rightarrow> nat Job \<Rightarrow> nat Allocation" where
  "ex_alloc i name node job =
     \<lparr>alloc_ID = i, alloc_Name = name, alloc_NodeID = node, alloc_JobID = ''web'',
      alloc_Job = job, alloc_Resources = 3, alloc_Metrics = None,
      alloc_Status = AllocStatusRunning\<rparr>"

definition ex_state :: "nat Job option \<Rightarrow> nat Allocation list \<Rightarrow> nat State" where
  "ex_state job allocs =
     \<lparr>GetJobByID = (\<lambda>i. Inr (if i = ''web'' then job else None)),
      AllocsByJob = (\<lambda>i. Inr (if i = ''web'' then allocs else [])),
      NodesByDatacenterStatus =
        (\<lambda>dc st. Inr (if dc = ''dc1'' \<and> st = NodeStatusReady then [ex_node] else []))\<rparr>"

definition ex_eval :: "EvalTrigger \<Rightarrow> Evaluation" where
  "ex_eval t = \<lparr>eval_ID = ''e1'', eval_Priority = 50, eval_TriggeredBy = t, eval_JobID = ''web''\<rparr>"

definition ex_result :: "bool \<Rightarrow> nat PlanResult" where
  "ex_result full = \<lparr>FullCommit = (\<lambda>plan. (full, int (length (pending plan)), 0))\<rparr>"

text \<open>A planner that gives the same answer to every plan.\<close>

definition ex_planner :: "nat SubmitResult \<Rightarrow> nat Planner" where
  "ex_planner r = \<lparr>respond = (\<lambda>earlier plan. r), submitted = []\<rparr>"

definition ex_sched :: "nat State \<Rightarrow> nat SubmitResult \<Rightarrow> nat ServiceScheduler" where
  "ex_sched st r = \<lparr>logger = [], state = st, planner = ex_planner r, uuids = 0\<rparr>"

definition ex_diff ::
  "nat Job \<Rightarrow> (string \<times> nat TaskGroup) list \<Rightarrow> (string \<times> nat Allocation) list \<Rightarrow>
   allocNameID list \<times> allocNameID list \<times> allocNameID list \<times> allocNameID list" where
  "ex_diff job required existing =
     (let named = map (\<lambda>n. \<lparr>Name = n\<rparr>);
          unchanged = (\<lambda>n. map_option alloc_Job (map_of existing n) = Some job)
      in (named (filter (\<lambda>n. map_of existing n = None) (map fst required)),
          named (filter (\<lambda>n. map_of existing n \<noteq> None \<and> \<not> unchanged n) (map fst required)),
          named (filter (\<lambda>n. map_of required n = None) (map fst existing)),
          named (filter (\<lambda>n. map_of existing n \<noteq> None \<and> unchanged n) (map fst required))))"

definition ex_X :: "(nat, nat) Externals" where
  "ex_X =
     \<lparr>diffAllocs = ex_diff,
      GenerateUUID = (\<lambda>n. ''id-'' @ decimal n),
      CeilLog2 = (\<lambda>n. if n \<le> 1 then 0 else 1),
      NewIterators = (\<lambda>s nodes. 0),
      MaxScore_Reset = (\<lambda>i. 0),
      MaxScore_Next = (\<lambda>stack plan.
         (case BaseNodes stack of
            [] \<Rightarrow> None
          | node # nodes \<Rightarrow> if ''docker'' \<in> TaskGroupDrivers stack then Some \<lparr>rn_Node = node\<rparr> else None,
          Suc (iterators stack)))\<rparr>"

definition ex_allocs :: "nat Allocation list" where
  "ex_allocs = [ex_alloc ''a1'' ''web.fe[0]'' ''n1'' (ex_job 2),
                ex_alloc ''a2'' ''web.fe[1]'' ''n2'' (ex_job 2),
                ex_alloc ''a3'' ''web.fe[2]'' ''n1'' (ex_job 2)]"

text \<open>
  More of the examples: a snapshot with the job and no allocation, one whose job
  has no instance to run, one whose only allocation is up to date, the
  allocations of an older version of the job; the pending allocation the
  examples place, the plans and stacks that result, and the scheduler after
  \<open>k\<close> passes against a planner that always answers \<open>r\<close>.
\<close>

definition ex_fresh :: "nat State" where
  "ex_fresh = ex_state (Some (ex_job 1)) []"

definition ex_zero :: "nat State" where
  "ex_zero = ex_state (Some (ex_job 0)) ex_allocs"

definition ex_ignored :: "nat State" where
  "ex_ignored = ex_state (Some (ex_job 1)) [ex_alloc ''a1'' ''web.fe[0]'' ''n1'' (ex_job 1)]"

definition ex_old :: "nat Allocation list" where
  "ex_old = [ex_alloc ''a1'' ''web.fe[0]'' ''n1'' (ex_job 1),
             ex_alloc ''a9'' ''web.fe[7]'' ''n2'' (ex_job 1)]"

definition ex_pending :: "nat \<Rightarrow> string \<Rightarrow> nat Job \<Rightarrow> nat Allocation" where
  "ex_pending k name job =
     \<lparr>alloc_ID = ''id-'' @ decimal k, alloc_Name = name, alloc_NodeID = ''n1'',
      alloc_JobID = ''web'', alloc_Job = job, alloc_Resources = 3, alloc_Metrics = None,
      alloc_Status = AllocStatusPending\<rparr>"

definition ex_placed :: "nat \<Rightarrow> nat Plan" where
  "ex_placed k =
     \<lparr>plan_EvalID = ''e1'', plan_Priority = 50, NodeEvict = [],
      NodeAllocation = [(''n1'', [ex_pending k ''web.fe[0]'' (ex_job 1)])]\<rparr>"

definition ex_replaced :: "nat Plan" where
  "ex_replaced =
     \<lparr>plan_EvalID = ''e1'', plan_Priority = 50,
      NodeEvict = [(''n2'', [''a9'']), (''n1'', [''a1''])],
      NodeAllocation = [(''n1'', [ex_pending 0 ''web.fe[1]'' (ex_job 2),
                                  ex_pending 1 ''web.fe[0]'' (ex_job 2)])]\<rparr>"

definition ex_built :: "nat State \<Rightarrow> Node list \<Rightarrow> (nat, nat) IteratorStack" where
  "ex_built st nodes =
     \<lparr>Context = st, BaseNodes = nodes, JobConstraint = [],
      TaskGroupDrivers = {}, TaskGroupConstraint = [],
      BinPack_Resources = None, BinPack_Evict = False, BinPack_Priority = 50,
      Limit = 2, iterators = 0\<rparr>"

definition ex_stack :: "nat State \<Rightarrow> (nat, nat) IteratorStack" where
  "ex_stack st =
     \<lparr>Context = st, BaseNodes = [ex_node], JobConstraint = [],
      TaskGroupDrivers = {''docker''}, TaskGroupConstraint = [],
      BinPack_Resources = Some 3, BinPack_Evict = False, BinPack_Priority = 50,
      Limit = 2, iterators = 1\<rparr>"

definition ex_refresh :: "nat SubmitResult" where
  "ex_refresh = SubmitOk (ex_result True) (Some ex_fresh)"

definition ex_run :: "nat SubmitResult \<Rightarrow> nat \<Rightarrow> nat ServiceScheduler" where
  "ex_run r k =
     \<lparr>logger = replicate k (LogNeeds ''e1'' ''web'' 1 0 0 0), state = ex_fresh,
      planner = (ex_planner r)\<lparr>submitted := map ex_placed [0 ..< k]\<rparr>, uuids = k\<rparr>"

section \<open>Properties\<close>

subsection \<open>Plans\<close>

lemma mset_entries_update:
  "mset (concat (map (\<lambda>(node, ids). map (Pair node) ids)
       (AList.update k ((case map_of al k of None \<Rightarrow> [] | Some ids \<Rightarrow> ids) @ [x]) al)))
   = mset (concat (map (\<lambda>(node, ids). map (Pair node) ids) al)) + {#(k, x)#}"
  by (induction al) auto

lemma evict_entries_AppendEvict:
  "mset (evict_entries (AppendEvict plan a)) =
   mset (evict_entries plan) + {#(alloc_NodeID a, alloc_ID a)#}"
  by (simp add: evict_entries_def AppendEvict_def Let_def mset_entries_update)

lemma evict_entries_foldl:
  "mset (evict_entries (foldl AppendEvict plan allocs)) =
   mset (evict_entries plan) + mset (map (\<lambda>a. (alloc_NodeID a, alloc_ID a)) allocs)"
  by (induction allocs arbitrary: plan) (simp_all add: evict_entries_AppendEvict)

lemma evictions_at_AppendEvict:
  "evictions_at (AppendEvict plan a) node =
   evictions_at plan node @ (if alloc_NodeID a = node then [alloc_ID a] else [])"
  by (simp add: evictions_at_def AppendEvict_def Let_def update_conv')

lemma evictions_at_foldl:
  "evictions_at (foldl AppendEvict plan allocs) node =
   evictions_at plan node @ map alloc_ID (filter (\<lambda>a. alloc_NodeID a = node) allocs)"
  by (induction allocs arbitrary: plan) (simp_all add: evictions_at_AppendEvict)

lemma NodeAllocation_AppendEvict: "NodeAllocation (AppendEvict plan a) = NodeAllocation plan"
  by (simp add: AppendEvict_def Let_def)

lemma NodeAllocation_foldl_AppendEvict:
  "NodeAllocation (foldl AppendEvict plan allocs) = NodeAllocation plan"
  by (induction allocs arbitrary: plan) (simp_all add: NodeAllocation_AppendEvict)

lemma pending_evictPlan: "pending (evictPlan eval allocs) = []"
  by (simp add: pending_def evictPlan_def NodeAllocation_foldl_AppendEvict)

lemma mset_pending_update:
  "mset (concat (map snd
       (AList.update k ((case map_of al k of None \<Rightarrow> [] | Some as \<Rightarrow> as) @ [x]) al)))
   = mset (concat (map snd al)) + {#x#}"
  by (induction al) auto

lemma pending_AppendAlloc:
  "mset (pending (AppendAlloc plan a)) = mset (pending plan) + {#a#}"
  by (simp add: pending_def AppendAlloc_def Let_def mset_pending_update)

lemma AppendAlloc_keeps:
  "NodeEvict (AppendAlloc plan a) = NodeEvict plan"
  "plan_EvalID (AppendAlloc plan a) = plan_EvalID plan"
  "plan_Priority (AppendAlloc plan a) = plan_Priority plan"
  by (simp_all add: AppendAlloc_def Let_def)

lemma evict_entries_addEvictsToPlan:
  "mset (evict_entries (addEvictsToPlan plan es indexed)) =
   mset (evict_entries plan) + mset (concat (map (evictEntry indexed) es))"
proof (induction es arbitrary: plan)
  case Nil
  then show ?case by (simp add: addEvictsToPlan_def)
next
  case (Cons e es)
  have "addEvictsToPlan plan (e # es) indexed =
        addEvictsToPlan (case map_of indexed (Name e) of None \<Rightarrow> plan
                         | Some alloc \<Rightarrow> AppendEvict plan alloc) es indexed"
    by (simp add: addEvictsToPlan_def)
  then show ?case
    by (simp add: Cons.IH evictEntry_def evict_entries_AppendEvict split: option.splits)
qed

lemma NodeAllocation_addEvictsToPlan:
  "NodeAllocation (addEvictsToPlan plan es indexed) = NodeAllocation plan"
proof (induction es arbitrary: plan)
  case Nil
  then show ?case by (simp add: addEvictsToPlan_def)
next
  case (Cons e es)
  have "addEvictsToPlan plan (e # es) indexed =
        addEvictsToPlan (case map_of indexed (Name e) of None \<Rightarrow> plan
                         | Some alloc \<Rightarrow> AppendEvict plan alloc) es indexed"
    by (simp add: addEvictsToPlan_def)
  then show ?case
    by (simp add: Cons.IH NodeAllocation_AppendEvict split: option.splits)
qed

lemma pending_addEvictsToPlan:
  "pending (addEvictsToPlan plan es indexed) = pending plan"
  by (simp add: pending_def NodeAllocation_addEvictsToPlan)

lemma MakePlan_empty: "evict_entries (MakePlan eval job) = []" "pending (MakePlan eval job) = []"
  by (simp_all add: MakePlan_def evict_entries_def pending_def)

lemma evictEntry_indexed:
  "\<forall>u \<in> set us. map_of indexed (Name u) \<noteq> None \<Longrightarrow>
   length (concat (map (evictEntry indexed) us)) = length us"
  by (induction us) (auto simp: evictEntry_def)

subsection \<open>The evict-all handler\<close>

lemma evictJobAllocs_none:
  assumes "AllocsByJob (state s) (eval_JobID eval) = Inr []"
  shows "evictJobAllocs eval s =
           Some (ReturnNil, Printf (LogNeedsEvictions (eval_ID eval) (eval_JobID eval) 0) s)"
  using assms by (subst evictJobAllocs.simps) simp

lemma evictJobAllocs_unfold:
  assumes "AllocsByJob (state s) (eval_JobID eval) = Inr allocs" "allocs \<noteq> []"
  shows "evictJobAllocs eval s =
           (let plan = evictPlan eval allocs;
                s2 = (Printf (LogNeedsEvictions (eval_ID eval) (eval_JobID eval) (length allocs)) s)
                       \<lparr>planner := (planner s)\<lparr>submitted := submitted (planner s) @ [plan]\<rparr>\<rparr>
            in case respond (planner s) (submitted (planner s)) plan of
                 SubmitErr err \<Rightarrow> Some (ReturnErr (ExternalError err), s2)
               | SubmitOk res None \<Rightarrow> Some (ReturnNil, s2)
               | SubmitOk res (Some st) \<Rightarrow> evictJobAllocs eval (s2\<lparr>state := st\<rparr>))"
  using assms
  by (subst evictJobAllocs.simps)
     (simp add: SubmitPlan_def Printf_def Let_def split: SubmitResult.splits option.splits)

lemma evictJobAllocs_diverges:
  assumes refresh: "\<And>h p. \<exists>res. respond (planner s) h p = SubmitOk res (Some (state s))"
    and allocs: "AllocsByJob (state s) (eval_JobID eval) = Inr allocs" "allocs \<noteq> []"
  shows "evictJobAllocs eval s = None"
proof -
  have "e = eval \<longrightarrow> state s' = state s \<longrightarrow> respond (planner s') = respond (planner s) \<longrightarrow> False"
    if run: "evictJobAllocs e s' = Some y" for e s' y
  proof (rule evictJobAllocs.raw_induct [OF _ run], intro impI)
    fix f e s' y
    assume IH: "\<And>e s' y. f e s' = Some y \<Longrightarrow>
        e = eval \<longrightarrow> state s' = state s \<longrightarrow> respond (planner s') = respond (planner s) \<longrightarrow> False"
      and body: "(case AllocsByJob (state s') (eval_JobID e) of
        Inl err \<Rightarrow> Some (ReturnErr (GetAllocsFailed (eval_JobID e) err), s')
      | Inr allocs \<Rightarrow>
          (let s1 = Printf (LogNeedsEvictions (eval_ID e) (eval_JobID e) (length allocs)) s'
           in if length allocs = 0 then Some (ReturnNil, s1)
              else
                (case SubmitPlan (planner s1) (evictPlan e allocs) of
                   (SubmitErr err, p) \<Rightarrow> Some (ReturnErr (ExternalError err), s1\<lparr>planner := p\<rparr>)
                 | (SubmitOk planResult newState, p) \<Rightarrow>
                     (case newState of
                        Some st \<Rightarrow> f e (s1\<lparr>planner := p, state := st\<rparr>)
                      | None \<Rightarrow> Some (ReturnNil, s1\<lparr>planner := p\<rparr>))))) = Some y"
      and e: "e = eval" and st: "state s' = state s"
      and rp: "respond (planner s') = respond (planner s)"
    let ?plan = "evictPlan eval allocs"
    obtain res where res:
      "respond (planner s) (submitted (planner s')) ?plan = SubmitOk res (Some (state s))"
      using refresh by blast
    let ?s2 = "(Printf (LogNeedsEvictions (eval_ID eval) (eval_JobID eval) (length allocs)) s')
                 \<lparr>planner := (planner s')\<lparr>submitted := submitted (planner s') @ [?plan]\<rparr>,
                  state := state s\<rparr>"
    from body have "f eval ?s2 = Some y"
      using allocs res by (simp add: e st rp SubmitPlan_def Printf_def)
    from IH[OF this] show False by (simp add: Printf_def rp)
  qed
  then show ?thesis by (cases "evictJobAllocs eval s") auto
qed

lemma evictPlan_cong:
  "eval_ID e2 = eval_ID e1 \<Longrightarrow> eval_Priority e2 = eval_Priority e1 \<Longrightarrow>
   evictPlan e2 allocs = evictPlan e1 allocs"
  by (simp add: evictPlan_def)

lemma evictJobAllocs_reads_step:
  assumes run: "evictJobAllocs e1 s = Some y"
  shows "eval_ID e2 = eval_ID e1 \<longrightarrow> eval_JobID e2 = eval_JobID e1 \<longrightarrow>
         eval_Priority e2 = eval_Priority e1 \<longrightarrow> evictJobAllocs e2 s = Some y"
proof (rule evictJobAllocs.raw_induct[OF _ run], goal_cases)
  case (1 f e s y)
  show ?case
  proof (intro impI)
    assume eq: "eval_ID e2 = eval_ID e" "eval_JobID e2 = eval_JobID e"
      "eval_Priority e2 = eval_Priority e"
    note IH = 1(1)[rule_format, OF _ eq]
    show "evictJobAllocs e2 s = Some y"
      using 1(2)
      by (subst evictJobAllocs.simps)
         (auto simp: eq evictPlan_cong[OF eq(1) eq(3)] Let_def IH
               split: sum.splits prod.splits SubmitResult.splits option.splits if_splits)
  qed
qed

lemma evictJobAllocs_reads:
  assumes "eval_ID e2 = eval_ID e1" "eval_JobID e2 = eval_JobID e1"
    "eval_Priority e2 = eval_Priority e1"
  shows "evictJobAllocs e2 s = evictJobAllocs e1 s"
proof (cases "evictJobAllocs e1 s")
  case (Some y)
  then show ?thesis using evictJobAllocs_reads_step[of e1 s y e2] assms by simp
next
  case None
  show ?thesis
  proof (cases "evictJobAllocs e2 s")
    case (Some y)
    then show ?thesis using evictJobAllocs_reads_step[of e2 s y e1] assms by simp
  qed (simp add: None)
qed

lemma evictJobAllocs_error:
  assumes run: "evictJobAllocs eval s = Some y"
  shows "fst y \<noteq> ReturnErr (PlanAllocsFailed e)"
proof (rule evictJobAllocs.raw_induct[OF _ run], goal_cases)
  case (1 f eval s y)
  from 1(2) show ?case
    by (auto simp: Let_def dest: 1(1)
             split: sum.splits prod.splits SubmitResult.splits option.splits if_splits)
qed

lemma Printf_simps:
  "planner (Printf l s) = planner s" "state (Printf l s) = state s"
  "uuids (Printf l s) = uuids s" "logger (Printf l s) = logger s @ [l]"
  by (simp_all add: Printf_def)

lemma blinded_simps [simp]:
  "state (blinded r0 s) = state s" "logger (blinded r0 s) = logger s"
  "uuids (blinded r0 s) = uuids s"
  "submitted (planner (blinded r0 s)) = submitted (planner s)"
  by (simp_all add: blinded_def blind_def)

lemma blinded_after:
  "Printf l (blinded r0 s) = blinded r0 (Printf l s)"
  "planner (blinded r0 (Printf l s)) = planner (blinded r0 s)"
  "(blinded r0 (Printf l s))\<lparr>planner := (planner (blinded r0 s))\<lparr>submitted := h\<rparr>\<rparr> =
   blinded r0 ((Printf l s)\<lparr>planner := (planner s)\<lparr>submitted := h\<rparr>\<rparr>)"
  "(blinded r0 (Printf l s))\<lparr>planner := (planner (blinded r0 s))\<lparr>submitted := h\<rparr>, state := st\<rparr> =
   blinded r0 ((Printf l s)\<lparr>planner := (planner s)\<lparr>submitted := h\<rparr>, state := st\<rparr>)"
  "(blinded r0 s)\<lparr>state := st\<rparr> = blinded r0 (s\<lparr>state := st\<rparr>)"
  by (simp_all add: blinded_def blind_def Printf_def)

lemma blinded_respond:
  "respond (planner (blinded r0 s)) earlier plan =
     (case respond (planner s) earlier plan of
        SubmitErr err \<Rightarrow> SubmitErr err
      | SubmitOk planResult newState \<Rightarrow> SubmitOk r0 newState)"
  by (simp add: blinded_def blind_def)

lemma evictJobAllocs_step:
  "evictJobAllocs eval s =
     (case AllocsByJob (state s) (eval_JobID eval) of
        Inl err \<Rightarrow> Some (ReturnErr (GetAllocsFailed (eval_JobID eval) err), s)
      | Inr allocs \<Rightarrow>
          if allocs = []
          then Some (ReturnNil, Printf (LogNeedsEvictions (eval_ID eval) (eval_JobID eval) 0) s)
          else
            (let plan = evictPlan eval allocs;
                 s2 = (Printf (LogNeedsEvictions (eval_ID eval) (eval_JobID eval) (length allocs)) s)
                        \<lparr>planner := (planner s)\<lparr>submitted := submitted (planner s) @ [plan]\<rparr>\<rparr>
             in case respond (planner s) (submitted (planner s)) plan of
                  SubmitErr err \<Rightarrow> Some (ReturnErr (ExternalError err), s2)
                | SubmitOk res None \<Rightarrow> Some (ReturnNil, s2)
                | SubmitOk res (Some st) \<Rightarrow> evictJobAllocs eval (s2\<lparr>state := st\<rparr>)))"
  by (subst evictJobAllocs.simps)
     (simp add: SubmitPlan_def Printf_def Let_def
           split: sum.splits SubmitResult.splits option.splits)

lemma evictJobAllocs_blinded_forth:
  assumes run: "evictJobAllocs eval s = Some y"
  shows "evictJobAllocs eval (blinded r0 s) = Some (fst y, blinded r0 (snd y))"
proof (rule evictJobAllocs.raw_induct[OF _ run], goal_cases)
  case (1 f eval s y)
  note IH = 1(1)
  from 1(2) show ?case
    by (subst evictJobAllocs_step)
       (auto simp: Let_def SubmitPlan_def blinded_respond blinded_after Printf_simps IH
             split: sum.splits SubmitResult.splits option.splits if_splits prod.splits)
qed

lemma evictJobAllocs_blinded_back:
  assumes run: "evictJobAllocs eval x = Some y"
  shows "\<forall>s. x = blinded r0 s \<longrightarrow>
           (\<exists>s'. evictJobAllocs eval s = Some (fst y, s') \<and> snd y = blinded r0 s')"
proof (rule evictJobAllocs.raw_induct[OF _ run], goal_cases)
  case (1 f eval x y)
  note IH = 1(1)[rule_format]
  show ?case
  proof (intro allI impI)
    fix s assume x: "x = blinded r0 s"
    from 1(2) show "\<exists>s'. evictJobAllocs eval s = Some (fst y, s') \<and> snd y = blinded r0 s'"
      unfolding x
      by (subst evictJobAllocs_step)
         (auto simp: Let_def SubmitPlan_def blinded_respond blinded_after Printf_simps
               dest: IH[OF _ refl]
               split: sum.splits SubmitResult.splits option.splits if_splits prod.splits)
  qed
qed

lemma evictJobAllocs_blinded:
  "map_option fst (evictJobAllocs eval (blinded r0 s)) = map_option fst (evictJobAllocs eval s)"
proof (cases "evictJobAllocs eval s")
  case (Some y)
  then show ?thesis using evictJobAllocs_blinded_forth[of eval s y r0] by simp
next
  case None
  show ?thesis
  proof (cases "evictJobAllocs eval (blinded r0 s)")
    case (Some y)
    with evictJobAllocs_blinded_back[of eval "blinded r0 s" y r0] None show ?thesis by auto
  qed (simp add: None)
qed

text \<open>
  Claim C8. \<open>evictJobAllocs\<close> returns success without submitting a plan when the
  job has no allocations. Otherwise the plan it submits holds one eviction entry
  (node, id) for each existing allocation, listed under the allocation's node,
  and no pending allocation; the planner's error is returned, a nil new state
  ends the call with success, and a new state is adopted and the loop entered
  again. Nothing bounds the number of passes: against a planner that always
  hands back the same snapshot the call never returns.
\<close>

theorem evictJobAllocs_evicts_every_alloc:
  "AllocsByJob (state s) (eval_JobID eval) = Inr allocs \<Longrightarrow>
   (allocs = [] \<longrightarrow>
      evictJobAllocs eval s =
        Some (ReturnNil, Printf (LogNeedsEvictions (eval_ID eval) (eval_JobID eval) 0) s) \<and>
      planner (Printf (LogNeedsEvictions (eval_ID eval) (eval_JobID eval) 0) s) = planner s) \<and>
   (allocs \<noteq> [] \<longrightarrow>
      (let plan = evictPlan eval allocs;
           s2 = (Printf (LogNeedsEvictions (eval_ID eval) (eval_JobID eval) (length allocs)) s)
                  \<lparr>planner := (planner s)\<lparr>submitted := submitted (planner s) @ [plan]\<rparr>\<rparr>
       in mset (evict_entries plan) = mset (map (\<lambda>a. (alloc_NodeID a, alloc_ID a)) allocs) \<and>
          (\<forall>node. evictions_at plan node =
                    map alloc_ID (filter (\<lambda>a. alloc_NodeID a = node) allocs)) \<and>
          pending plan = [] \<and>
          evictJobAllocs eval s =
            (case respond (planner s) (submitted (planner s)) plan of
               SubmitErr err \<Rightarrow> Some (ReturnErr (ExternalError err), s2)
             | SubmitOk res None \<Rightarrow> Some (ReturnNil, s2)
             | SubmitOk res (Some st) \<Rightarrow> evictJobAllocs eval (s2\<lparr>state := st\<rparr>)))) \<and>
   (allocs \<noteq> [] \<and> (\<forall>earlier plan. \<exists>res. respond (planner s) earlier plan = SubmitOk res (Some (state s)))
      \<longrightarrow> evictJobAllocs eval s = None)"
proof (intro conjI impI)
  assume a: "AllocsByJob (state s) (eval_JobID eval) = Inr allocs"
  { assume "allocs = []"
    with a show "evictJobAllocs eval s =
        Some (ReturnNil, Printf (LogNeedsEvictions (eval_ID eval) (eval_JobID eval) 0) s)"
      by (simp add: evictJobAllocs_none)
    show "planner (Printf (LogNeedsEvictions (eval_ID eval) (eval_JobID eval) 0) s) = planner s"
      by (simp add: Printf_def) }
  { assume ne: "allocs \<noteq> []"
    have e1: "mset (evict_entries (evictPlan eval allocs)) =
              mset (map (\<lambda>a. (alloc_NodeID a, alloc_ID a)) allocs)"
      by (simp add: evictPlan_def evict_entries_foldl) (simp add: evict_entries_def)
    have e2: "evictions_at (evictPlan eval allocs) node =
              map alloc_ID (filter (\<lambda>a. alloc_NodeID a = node) allocs)" for node
      by (simp add: evictPlan_def evictions_at_foldl) (simp add: evictions_at_def)
    show "let plan = evictPlan eval allocs;
           s2 = (Printf (LogNeedsEvictions (eval_ID eval) (eval_JobID eval) (length allocs)) s)
                  \<lparr>planner := (planner s)\<lparr>submitted := submitted (planner s) @ [plan]\<rparr>\<rparr>
       in mset (evict_entries plan) = mset (map (\<lambda>a. (alloc_NodeID a, alloc_ID a)) allocs) \<and>
          (\<forall>node. evictions_at plan node =
                    map alloc_ID (filter (\<lambda>a. alloc_NodeID a = node) allocs)) \<and>
          pending plan = [] \<and>
          evictJobAllocs eval s =
            (case respond (planner s) (submitted (planner s)) plan of
               SubmitErr err \<Rightarrow> Some (ReturnErr (ExternalError err), s2)
             | SubmitOk res None \<Rightarrow> Some (ReturnNil, s2)
             | SubmitOk res (Some st) \<Rightarrow> evictJobAllocs eval (s2\<lparr>state := st\<rparr>))"
      unfolding Let_def
      using e1 e2 pending_evictPlan evictJobAllocs_unfold[OF a ne, unfolded Let_def]
      by blast }
  { assume "allocs \<noteq> [] \<and> (\<forall>earlier plan. \<exists>res. respond (planner s) earlier plan = SubmitOk res (Some (state s)))"
    then show "evictJobAllocs eval s = None"
      using evictJobAllocs_diverges[OF _ a] by blast }
qed

subsection \<open>Placement\<close>

lemma foldl_constraints:
  "foldl (\<lambda>c task. c @ task_Constraints task) init tasks =
   init @ concat (map task_Constraints tasks)"
  by (induction tasks arbitrary: init) simp_all

lemma foldl_drivers:
  "foldl (\<lambda>d task. insert (task_Driver task) d) init tasks = init \<union> set (map task_Driver tasks)"
  by (induction tasks arbitrary: init) auto

lemma foldl_resources:
  "foldl (\<lambda>r task. r + task_Resources task) z tasks = foldl (+) z (map task_Resources tasks)"
  by (simp add: foldl_map)

lemma planAllocations_Cons:
  assumes "map_of groups (Name missing) = Some taskGroup"
  shows
    "planAllocations X stack job plan (missing # place) groups s =
      (let size = foldl (+) 0 (map task_Resources (tg_Tasks taskGroup));
           asked = stack\<lparr>iterators := MaxScore_Reset X (iterators stack),
                         TaskGroupDrivers := set (map task_Driver (tg_Tasks taskGroup)),
                         TaskGroupConstraint :=
                           tg_Constraints taskGroup @
                           concat (map task_Constraints (tg_Tasks taskGroup)),
                         BinPack_Resources := Some size\<rparr>;
           stack' = asked\<lparr>iterators := snd (MaxScore_Next X asked plan)\<rparr>
       in case fst (MaxScore_Next X asked plan) of
            None \<Rightarrow>
              planAllocations X stack' job plan place groups
                (Printf (LogFailedToPlace missing (job_ID job)) s)
          | Some option \<Rightarrow>
              planAllocations X stack' job
                (AppendAlloc plan
                   \<lparr>alloc_ID = GenerateUUID X (uuids s),
                    alloc_Name = Name missing,
                    alloc_NodeID = node_ID (rn_Node option),
                    alloc_JobID = job_ID job,
                    alloc_Job = job,
                    alloc_Resources = size,
                    alloc_Metrics = None,
                    alloc_Status = AllocStatusPending\<rparr>)
                place groups (s\<lparr>uuids := Suc (uuids s)\<rparr>))"
  using assms
  by (simp add: Let_def foldl_constraints foldl_drivers foldl_resources)

lemma planAllocations_run:
  assumes "planAllocations X stack job plan place groups s = (ReturnNil, stack', plan', s')"
  shows "\<exists>new failed.
      mset (pending plan') = mset (pending plan) + mset new \<and>
      uuids s \<le> uuids s' \<and>
      map alloc_ID new = map (GenerateUUID X) [uuids s ..< uuids s'] \<and>
      mset (map alloc_Name new) + mset (map Name failed) = mset (map Name place) \<and>
      logger s' = logger s @ map (\<lambda>m. LogFailedToPlace m (job_ID job)) failed \<and>
      (\<forall>a \<in> set new.
         alloc_Status a = AllocStatusPending \<and> alloc_Job a = job \<and>
         alloc_JobID a = job_ID job \<and>
         (\<exists>tg. map_of groups (alloc_Name a) = Some tg \<and>
               alloc_Resources a = foldl (+) 0 (map task_Resources (tg_Tasks tg)))) \<and>
      NodeEvict plan' = NodeEvict plan \<and> plan_EvalID plan' = plan_EvalID plan \<and>
      plan_Priority plan' = plan_Priority plan \<and>
      planner s' = planner s \<and> state s' = state s"
  using assms
proof (induction place arbitrary: stack plan s)
  case Nil
  then show ?case by (intro exI[of _ "[]"]) simp
next
  case (Cons missing place)
  show ?case
  proof (cases "map_of groups (Name missing)")
    case None
    with Cons.prems show ?thesis by simp
  next
    case (Some tg)
    let ?size = "foldl (+) 0 (map task_Resources (tg_Tasks tg))"
    let ?asked = "stack\<lparr>iterators := MaxScore_Reset X (iterators stack),
                         TaskGroupDrivers := set (map task_Driver (tg_Tasks tg)),
                         TaskGroupConstraint :=
                           tg_Constraints tg @ concat (map task_Constraints (tg_Tasks tg)),
                         BinPack_Resources := Some ?size\<rparr>"
    let ?stack = "?asked\<lparr>iterators := snd (MaxScore_Next X ?asked plan)\<rparr>"
    note step = planAllocations_Cons[OF Some, of X stack job plan place s, unfolded Let_def]
    show ?thesis
    proof (cases "fst (MaxScore_Next X ?asked plan)")
      case None
      let ?s = "Printf (LogFailedToPlace missing (job_ID job)) s"
      from Cons.prems step None
      have "planAllocations X ?stack job plan place groups ?s = (ReturnNil, stack', plan', s')"
        by simp
      from Cons.IH[OF this] obtain new failed where IH:
        "mset (pending plan') = mset (pending plan) + mset new"
        "uuids ?s \<le> uuids s'"
        "map alloc_ID new = map (GenerateUUID X) [uuids ?s ..< uuids s']"
        "mset (map alloc_Name new) + mset (map Name failed) = mset (map Name place)"
        "logger s' = logger ?s @ map (\<lambda>m. LogFailedToPlace m (job_ID job)) failed"
        "\<forall>a \<in> set new.
           alloc_Status a = AllocStatusPending \<and> alloc_Job a = job \<and>
           alloc_JobID a = job_ID job \<and>
           (\<exists>tg. map_of groups (alloc_Name a) = Some tg \<and>
                 alloc_Resources a = foldl (+) 0 (map task_Resources (tg_Tasks tg)))"
        "NodeEvict plan' = NodeEvict plan" "plan_EvalID plan' = plan_EvalID plan"
        "plan_Priority plan' = plan_Priority plan"
        "planner s' = planner ?s" "state s' = state ?s"
        by blast
      show ?thesis
        apply (rule exI[of _ new], rule exI[of _ "missing # failed"])
        using IH by (simp add: Printf_def)
    next
      case (Some option)
      let ?a = "\<lparr>alloc_ID = GenerateUUID X (uuids s),
                    alloc_Name = Name missing,
                    alloc_NodeID = node_ID (rn_Node option),
                    alloc_JobID = job_ID job,
                    alloc_Job = job,
                    alloc_Resources = ?size,
                    alloc_Metrics = None,
                    alloc_Status = AllocStatusPending\<rparr>"
      let ?s = "s\<lparr>uuids := Suc (uuids s)\<rparr>"
      from Cons.prems step Some
      have "planAllocations X ?stack job (AppendAlloc plan ?a) place groups ?s =
              (ReturnNil, stack', plan', s')"
        by simp
      from Cons.IH[OF this] obtain new failed where IH:
        "mset (pending plan') = mset (pending (AppendAlloc plan ?a)) + mset new"
        "uuids ?s \<le> uuids s'"
        "map alloc_ID new = map (GenerateUUID X) [uuids ?s ..< uuids s']"
        "mset (map alloc_Name new) + mset (map Name failed) = mset (map Name place)"
        "logger s' = logger ?s @ map (\<lambda>m. LogFailedToPlace m (job_ID job)) failed"
        "\<forall>a \<in> set new.
           alloc_Status a = AllocStatusPending \<and> alloc_Job a = job \<and>
           alloc_JobID a = job_ID job \<and>
           (\<exists>tg. map_of groups (alloc_Name a) = Some tg \<and>
                 alloc_Resources a = foldl (+) 0 (map task_Resources (tg_Tasks tg)))"
        "NodeEvict plan' = NodeEvict (AppendAlloc plan ?a)"
        "plan_EvalID plan' = plan_EvalID (AppendAlloc plan ?a)"
        "plan_Priority plan' = plan_Priority (AppendAlloc plan ?a)"
        "planner s' = planner ?s" "state s' = state ?s"
        by blast
      from IH(2) have lt: "uuids s < uuids s'" by simp
      then have upt: "[uuids s ..< uuids s'] = uuids s # [Suc (uuids s) ..< uuids s']"
        by (simp add: upt_conv_Cons)
      show ?thesis
        apply (rule exI[of _ "?a # new"], rule exI[of _ failed])
        using IH lt \<open>map_of groups (Name missing) = Some tg\<close>
        by (simp add: pending_AppendAlloc AppendAlloc_keeps upt)
    qed
  qed
qed

lemma planAllocations_never_fails:
  "fst (planAllocations X stack job plan place groups s) \<noteq> ReturnErr e"
  by (induction X stack job plan place groups s rule: planAllocations.induct)
     (simp_all add: Let_def split: option.splits)

lemma planAllocations_returns:
  "\<forall>m \<in> set place. map_of groups (Name m) \<noteq> None \<Longrightarrow>
   fst (planAllocations X stack job plan place groups s) = ReturnNil"
  by (induction X stack job plan place groups s rule: planAllocations.induct)
     (auto simp: Let_def split: option.splits)

text \<open>
  Claim C4. For a name of the place list that is a key of \<open>groups\<close>,
  \<open>planAllocations\<close> resets MaxScore, sets the driver filter to the drivers of
  the group's tasks, the constraint filter to the group's constraints followed by
  those of its tasks and the bin-pack resources to the sum of the tasks'
  resources (from zero, in task order), and asks MaxScore for a node. On a node
  it appends to the plan a pending allocation with the next id of the generator,
  the name, the node's id, the job and its id, the summed resources and status
  pending; on none it logs the name and goes on with the next. Over a whole run
  the new pending allocations carry consecutive draws of the generator, every
  name is either placed or logged, and no error is returned.
\<close>

theorem planAllocations_places_each_name:
  "(map_of groups (Name missing) = Some taskGroup \<longrightarrow>
      planAllocations X stack job plan (missing # place) groups s =
        (let size = foldl (+) 0 (map task_Resources (tg_Tasks taskGroup));
             asked = stack\<lparr>iterators := MaxScore_Reset X (iterators stack),
                           TaskGroupDrivers := set (map task_Driver (tg_Tasks taskGroup)),
                           TaskGroupConstraint :=
                             tg_Constraints taskGroup @
                             concat (map task_Constraints (tg_Tasks taskGroup)),
                           BinPack_Resources := Some size\<rparr>;
             stack' = asked\<lparr>iterators := snd (MaxScore_Next X asked plan)\<rparr>
         in case fst (MaxScore_Next X asked plan) of
              None \<Rightarrow>
                planAllocations X stack' job plan place groups
                  (Printf (LogFailedToPlace missing (job_ID job)) s)
            | Some option \<Rightarrow>
                planAllocations X stack' job
                  (AppendAlloc plan
                     \<lparr>alloc_ID = GenerateUUID X (uuids s),
                      alloc_Name = Name missing,
                      alloc_NodeID = node_ID (rn_Node option),
                      alloc_JobID = job_ID job,
                      alloc_Job = job,
                      alloc_Resources = size,
                      alloc_Metrics = None,
                      alloc_Status = AllocStatusPending\<rparr>)
                  place groups (s\<lparr>uuids := Suc (uuids s)\<rparr>)))
   \<and> (planAllocations X stack job plan place groups s = (ReturnNil, stack1, plan1, s1) \<longrightarrow>
        (\<exists>new failed.
           mset (pending plan1) = mset (pending plan) + mset new \<and>
           map alloc_ID new = map (GenerateUUID X) [uuids s ..< uuids s1] \<and>
           mset (map alloc_Name new) + mset (map Name failed) = mset (map Name place) \<and>
           logger s1 = logger s @ map (\<lambda>m. LogFailedToPlace m (job_ID job)) failed \<and>
           (\<forall>a \<in> set new.
              alloc_Status a = AllocStatusPending \<and> alloc_Job a = job \<and>
              alloc_JobID a = job_ID job \<and>
              (\<exists>tg. map_of groups (alloc_Name a) = Some tg \<and>
                    alloc_Resources a = foldl (+) 0 (map task_Resources (tg_Tasks tg))))))
   \<and> fst (planAllocations X stack job plan place groups s) \<noteq> ReturnErr e"
proof (intro conjI impI)
  assume "map_of groups (Name missing) = Some taskGroup"
  then show "planAllocations X stack job plan (missing # place) groups s =
        (let size = foldl (+) 0 (map task_Resources (tg_Tasks taskGroup));
             asked = stack\<lparr>iterators := MaxScore_Reset X (iterators stack),
                           TaskGroupDrivers := set (map task_Driver (tg_Tasks taskGroup)),
                           TaskGroupConstraint :=
                             tg_Constraints taskGroup @
                             concat (map task_Constraints (tg_Tasks taskGroup)),
                           BinPack_Resources := Some size\<rparr>;
             stack' = asked\<lparr>iterators := snd (MaxScore_Next X asked plan)\<rparr>
         in case fst (MaxScore_Next X asked plan) of
              None \<Rightarrow>
                planAllocations X stack' job plan place groups
                  (Printf (LogFailedToPlace missing (job_ID job)) s)
            | Some option \<Rightarrow>
                planAllocations X stack' job
                  (AppendAlloc plan
                     \<lparr>alloc_ID = GenerateUUID X (uuids s),
                      alloc_Name = Name missing,
                      alloc_NodeID = node_ID (rn_Node option),
                      alloc_JobID = job_ID job,
                      alloc_Job = job,
                      alloc_Resources = size,
                      alloc_Metrics = None,
                      alloc_Status = AllocStatusPending\<rparr>)
                  place groups (s\<lparr>uuids := Suc (uuids s)\<rparr>))"
    by (rule planAllocations_Cons)
next
  assume "planAllocations X stack job plan place groups s = (ReturnNil, stack1, plan1, s1)"
  from planAllocations_run[OF this]
  show "\<exists>new failed.
           mset (pending plan1) = mset (pending plan) + mset new \<and>
           map alloc_ID new = map (GenerateUUID X) [uuids s ..< uuids s1] \<and>
           mset (map alloc_Name new) + mset (map Name failed) = mset (map Name place) \<and>
           logger s1 = logger s @ map (\<lambda>m. LogFailedToPlace m (job_ID job)) failed \<and>
           (\<forall>a \<in> set new.
              alloc_Status a = AllocStatusPending \<and> alloc_Job a = job \<and>
              alloc_JobID a = job_ID job \<and>
              (\<exists>tg. map_of groups (alloc_Name a) = Some tg \<and>
                    alloc_Resources a = foldl (+) 0 (map task_Resources (tg_Tasks tg))))"
    by blast
next
  show "fst (planAllocations X stack job plan place groups s) \<noteq> ReturnErr e"
    by (rule planAllocations_never_fails)
qed

subsection \<open>One pass of the register handler\<close>

lemma iterStack_limit:
  assumes "iterStack X s job plan = Inr stack"
  shows "Limit stack =
           (if BaseNodes stack = [] then 2
            else max 2 (CeilLog2 X (length (BaseNodes stack))))"
  using assms by (auto simp: iterStack_def Let_def split: sum.splits)

lemma registerSubmit_unfold:
  assumes "respond (planner s) (submitted (planner s)) plan = SubmitOk planResult newState"
  shows "registerSubmit eval stack plan s =
     (let p = (planner s)\<lparr>submitted := submitted (planner s) @ [plan]\<rparr>
      in case newState of
           Some st \<Rightarrow> GotoSTART (s\<lparr>planner := p, state := st\<rparr>) (stack\<lparr>Context := st\<rparr>)
         | None \<Rightarrow>
             (case FullCommit planResult plan of
                (fullCommit, expected, actual) \<Rightarrow>
                  if fullCommit then Return ReturnNil (s\<lparr>planner := p\<rparr>)
                  else GotoSTART
                         (Printf (LogPartialCommit (eval_ID eval) (eval_JobID eval) expected actual)
                            (s\<lparr>planner := p\<rparr>))
                         stack))"
  using assms
  by (simp add: registerSubmit_def SubmitPlan_def Let_def split: option.splits prod.splits)

lemma registerSubmit_error:
  "registerSubmit eval stack plan s = Return (ReturnErr err) s' \<Longrightarrow> \<exists>m. err = ExternalError m"
  by (auto simp: registerSubmit_def Let_def split: prod.splits SubmitResult.splits option.splits if_splits)

lemma materialize_no_instances:
  assumes "\<forall>tg \<in> set tgs. tg_Count tg \<le> 0"
  shows "foldl (\<lambda>out tg.
              foldl (\<lambda>out i. AList.update (allocName jid (tg_Name tg) i) tg out)
                out [0 ..< nat (tg_Count tg)]) out tgs = out"
  using assms by (induction tgs arbitrary: out) simp_all

lemma materializeTaskGroups_count_zero:
  "\<forall>tg \<in> set (job_TaskGroups job). tg_Count tg \<le> 0 \<Longrightarrow> materializeTaskGroups job = []"
  by (simp add: materializeTaskGroups_def materialize_no_instances)

lemma registerAttempt_job_missing:
  "GetJobByID (state s) (eval_JobID eval) = Inr None \<Longrightarrow>
   registerAttempt X eval s =
     Return ReturnNil (Printf (LogJobNotFound (eval_ID eval) (eval_JobID eval)) s)"
  by (simp add: registerAttempt_def)

lemma registerAttempt_registerPlan:
  "GetJobByID (state s) (eval_JobID eval) = Inr (Some job) \<Longrightarrow>
   materializeTaskGroups job \<noteq> [] \<Longrightarrow>
   AllocsByJob (state s) (eval_JobID eval) = Inr allocs \<Longrightarrow>
   registerAttempt X eval s = registerPlan X eval job (materializeTaskGroups job) allocs s"
  by (simp add: registerAttempt_def)

lemma registerAttempt_Delegate:
  "GetJobByID (state s) (eval_JobID eval) = Inr (Some job) \<Longrightarrow> materializeTaskGroups job = [] \<Longrightarrow>
   registerAttempt X eval s = Delegate s"
  by (simp add: registerAttempt_def)

lemma registerPlan_empty_diff:
  "diffAllocs X job groups (indexAllocs allocs) = ([], [], [], ignore) \<Longrightarrow>
   registerPlan X eval job groups allocs s =
     Return ReturnNil
       (Printf (LogNeeds (eval_ID eval) (eval_JobID eval) 0 0 0 (length ignore)) s)"
  by (simp add: registerPlan_def)

lemma registerPlan_unfold:
  assumes d: "diffAllocs X job groups (indexAllocs allocs) = (place, update, evict, ignore)"
    and ne: "\<not> (place = [] \<and> update = [] \<and> evict = [])"
    and s1: "s1 = Printf (LogNeeds (eval_ID eval) (eval_JobID eval)
                     (length place) (length update) (length evict) (length ignore)) s"
    and plan: "plan = addEvictsToPlan (addEvictsToPlan (MakePlan eval job) evict (indexAllocs allocs))
                        update (indexAllocs allocs)"
  shows "registerPlan X eval job groups allocs s =
     (case iterStack X s1 job plan of
        Inl err \<Rightarrow> Return (ReturnErr (IterStackFailed err)) s1
      | Inr stack \<Rightarrow>
          (case planAllocations X stack job plan (place @ update) groups s1 of
             (ReturnErr err, stack, plan, s) \<Rightarrow> Return (ReturnErr (PlanAllocsFailed err)) s
           | (Panic, stack, plan, s) \<Rightarrow> Return Panic s
           | (ReturnNil, stack, plan, s) \<Rightarrow> registerSubmit eval stack plan s))"
  unfolding s1 plan using ne by (auto simp: registerPlan_def d Let_def)

lemma registerPlan_error:
  assumes ret: "registerPlan X eval job groups allocs s = Return (ReturnErr err) s'"
  shows "err \<noteq> PlanAllocsFailed e"
proof -
  obtain place update evict ignore where d:
    "diffAllocs X job groups (indexAllocs allocs) = (place, update, evict, ignore)"
    by (cases "diffAllocs X job groups (indexAllocs allocs)") auto
  show ?thesis
  proof (cases "place = [] \<and> update = [] \<and> evict = []")
    case True
    with ret d show ?thesis by (simp add: registerPlan_def)
  next
    case False
    note u = registerPlan_unfold[OF d False refl refl, of eval s]
    show ?thesis
    proof (cases "iterStack X (Printf (LogNeeds (eval_ID eval) (eval_JobID eval)
                     (length place) (length update) (length evict) (length ignore)) s) job
                 (addEvictsToPlan (addEvictsToPlan (MakePlan eval job) evict (indexAllocs allocs))
                        update (indexAllocs allocs))")
      case (Inl m)
      with ret u show ?thesis by auto
    next
      case (Inr stack)
      obtain r stack' plan' s2 where pa: "planAllocations X stack job
          (addEvictsToPlan (addEvictsToPlan (MakePlan eval job) evict (indexAllocs allocs))
                        update (indexAllocs allocs)) (place @ update) groups
          (Printf (LogNeeds (eval_ID eval) (eval_JobID eval)
                     (length place) (length update) (length evict) (length ignore)) s)
          = (r, stack', plan', s2)"
        using prod_cases4 by blast
      have "r \<noteq> ReturnErr e'" for e'
        using planAllocations_never_fails[of X stack job _ "place @ update" groups _ e'] pa
        by (metis fst_conv)
      with ret u Inr pa show ?thesis
        by (cases r) (auto dest: registerSubmit_error)
    qed
  qed
qed

lemma registerAttempt_error:
  "registerAttempt X eval s = Return (ReturnErr err) s' \<Longrightarrow> err \<noteq> PlanAllocsFailed e"
  by (auto simp: registerAttempt_def Let_def dest: registerPlan_error
           split: sum.splits option.splits if_splits)

text \<open>
  Claim C3. In a pass of \<open>handleJobRegister\<close> that gets as far as placing, the
  names of the update set are added to the plan as evictions, after those of the
  evict set, and appended to the place list. The plan that is submitted holds
  one eviction entry for each indexed name of evict and update and nothing else
  (so one entry per updated allocation), and each name of place and update is
  attempted once in that same plan: it is the name of one pending allocation or
  the subject of one "failed to place" line.
\<close>

theorem handleJobRegister_updates_evict_then_place:
  assumes job: "GetJobByID (state s) (eval_JobID eval) = Inr (Some job)"
    and groups: "groups = materializeTaskGroups job" "groups \<noteq> []"
    and allocs: "AllocsByJob (state s) (eval_JobID eval) = Inr allocs"
    and indexed: "indexed = indexAllocs allocs"
    and diff: "diffAllocs X job groups indexed = (place, update, evict, ignore)"
    and work: "\<not> (place = [] \<and> update = [] \<and> evict = [])"
    and s1: "s1 = Printf (LogNeeds (eval_ID eval) (eval_JobID eval)
                     (length place) (length update) (length evict) (length ignore)) s"
    and plan: "plan = addEvictsToPlan (addEvictsToPlan (MakePlan eval job) evict indexed)
                        update indexed"
    and stack: "iterStack X s1 job plan = Inr stack"
    and placed: "planAllocations X stack job plan (place @ update) groups s1 =
                   (ReturnNil, stack', plan', s')"
  shows "registerAttempt X eval s = registerSubmit eval stack' plan' s'
     \<and> mset (evict_entries plan') =
         mset (concat (map (evictEntry indexed) evict)) +
         mset (concat (map (evictEntry indexed) update))
     \<and> ((\<forall>u \<in> set update. map_of indexed (Name u) \<noteq> None) \<longrightarrow>
          length (concat (map (evictEntry indexed) update)) = length update)
     \<and> (\<exists>failed.
          mset (map alloc_Name (pending plan')) + mset (map Name failed) =
            mset (map Name place) + mset (map Name update) \<and>
          logger s' = logger s1 @ map (\<lambda>m. LogFailedToPlace m (job_ID job)) failed)"
proof (intro conjI)
  have "registerAttempt X eval s = registerPlan X eval job groups allocs s"
    using registerAttempt_registerPlan[OF job _ allocs] groups by simp
  also have "\<dots> = registerSubmit eval stack' plan' s'"
    using registerPlan_unfold[OF diff[unfolded indexed] work s1 plan[unfolded indexed]]
          stack placed
    by simp
  finally show "registerAttempt X eval s = registerSubmit eval stack' plan' s'" .
  from planAllocations_run[OF placed] obtain new failed where run:
    "mset (pending plan') = mset (pending plan) + mset new"
    "mset (map alloc_Name new) + mset (map Name failed) = mset (map Name (place @ update))"
    "logger s' = logger s1 @ map (\<lambda>m. LogFailedToPlace m (job_ID job)) failed"
    "NodeEvict plan' = NodeEvict plan"
    by blast
  have "evict_entries plan' = evict_entries plan"
    using run(4) by (simp add: evict_entries_def)
  then show "mset (evict_entries plan') =
         mset (concat (map (evictEntry indexed) evict)) +
         mset (concat (map (evictEntry indexed) update))"
    by (simp add: plan evict_entries_addEvictsToPlan MakePlan_empty)
  show "(\<forall>u \<in> set update. map_of indexed (Name u) \<noteq> None) \<longrightarrow>
          length (concat (map (evictEntry indexed) update)) = length update"
    by (simp add: evictEntry_indexed)
  have "pending plan = []"
    by (simp add: plan pending_addEvictsToPlan MakePlan_empty)
  with run(1) have "mset (pending plan') = mset new" by simp
  then have "mset (map alloc_Name (pending plan')) = mset (map alloc_Name new)"
    by (metis mset_map)
  with run(2,3)
  show "\<exists>failed.
          mset (map alloc_Name (pending plan')) + mset (map Name failed) =
            mset (map Name place) + mset (map Name update) \<and>
          logger s' = logger s1 @ map (\<lambda>m. LogFailedToPlace m (job_ID job)) failed"
    by (intro exI[of _ failed]) simp
qed

subsection \<open>The loop of the register handler\<close>

lemma START_Return:
  "attempts \<noteq> maxScheduleAttempts \<Longrightarrow> registerAttempt X eval s = Return r s' \<Longrightarrow>
   handleJobRegister_START X eval attempts s = Some (r, attempts + 1, s')"
  by (subst handleJobRegister_START.simps) simp

lemma START_GotoSTART:
  "attempts \<noteq> maxScheduleAttempts \<Longrightarrow> registerAttempt X eval s = GotoSTART s' stack \<Longrightarrow>
   handleJobRegister_START X eval attempts s = handleJobRegister_START X eval (attempts + 1) s'"
  by (subst handleJobRegister_START.simps) simp

lemma START_Delegate:
  "attempts \<noteq> maxScheduleAttempts \<Longrightarrow> registerAttempt X eval s = Delegate s' \<Longrightarrow>
   handleJobRegister_START X eval attempts s =
     map_option (\<lambda>(r, s''). (r, attempts + 1, s'')) (evictJobAllocs eval s')"
  by (subst handleJobRegister_START.simps) simp

lemma START_exhausted:
  "handleJobRegister_START X eval maxScheduleAttempts s =
     Some (ReturnErr (MaxAttemptsReached maxScheduleAttempts), maxScheduleAttempts, s)"
  by (subst handleJobRegister_START.simps) simp

lemma map_option_attempts:
  "map_option (\<lambda>(r, attempts, s'). (r, s')) (map_option (\<lambda>(r, s''). (r, n, s'')) x) = x"
  by (cases x) auto

lemma START_error:
  assumes run: "handleJobRegister_START X eval attempts s = Some y"
  shows "fst y \<noteq> ReturnErr (PlanAllocsFailed e)"
proof (rule handleJobRegister_START.raw_induct[OF _ run], goal_cases)
  case (1 f X eval attempts s y)
  from 1(2) show ?case
    by (auto dest: 1(1) registerAttempt_error evictJobAllocs_error
             split: if_splits step.splits)
qed

lemma START_all_restart:
  "attempts + k = maxScheduleAttempts \<Longrightarrow> afterRestarts X eval k s = Some s' \<Longrightarrow>
   handleJobRegister_START X eval attempts s =
     Some (ReturnErr (MaxAttemptsReached maxScheduleAttempts), maxScheduleAttempts, s')"
proof (induction k arbitrary: attempts s)
  case 0
  then show ?case by (simp add: START_exhausted)
next
  case (Suc k)
  from Suc.prems(2) obtain s1 stack where
    a: "registerAttempt X eval s = GotoSTART s1 stack" and r: "afterRestarts X eval k s1 = Some s'"
    by (auto split: step.splits)
  from Suc.prems(1) have "attempts \<noteq> maxScheduleAttempts" "attempts + 1 + k = maxScheduleAttempts"
    by simp_all
  with Suc.IH[OF _ r, of "attempts + 1"] START_GotoSTART[OF _ a] show ?case by simp
qed

lemma START_terminates:
  assumes "attempts + fuel = maxScheduleAttempts"
    and "\<And>k s1 s2. k < fuel \<Longrightarrow> afterRestarts X eval k s = Some s1 \<Longrightarrow>
           registerAttempt X eval s1 = Delegate s2 \<Longrightarrow> evictJobAllocs eval s2 \<noteq> None"
  shows "\<exists>r n s'. handleJobRegister_START X eval attempts s = Some (r, n, s') \<and>
                   n \<le> maxScheduleAttempts"
  using assms
proof (induction fuel arbitrary: attempts s)
  case 0
  then show ?case by (simp add: START_exhausted)
next
  case (Suc fuel)
  from Suc.prems(1) have ne: "attempts \<noteq> maxScheduleAttempts"
    and le: "attempts + 1 \<le> maxScheduleAttempts" by simp_all
  show ?case
  proof (cases "registerAttempt X eval s")
    case (Return r s')
    with START_Return[OF ne this] le show ?thesis by simp
  next
    case (Delegate s2)
    with Suc.prems(2)[of 0 s s2] obtain r s' where "evictJobAllocs eval s2 = Some (r, s')"
      by auto
    with START_Delegate[OF ne Delegate] le show ?thesis by simp
  next
    case (GotoSTART s1 stack)
    have "\<exists>r n s'. handleJobRegister_START X eval (attempts + 1) s1 = Some (r, n, s') \<and>
                   n \<le> maxScheduleAttempts"
    proof (rule Suc.IH)
      show "attempts + 1 + fuel = maxScheduleAttempts" using Suc.prems(1) by simp
    next
      fix k s1' s2
      assume "k < fuel" "afterRestarts X eval k s1 = Some s1'"
        "registerAttempt X eval s1' = Delegate s2"
      then show "evictJobAllocs eval s2 \<noteq> None"
        using Suc.prems(2)[of "Suc k" s1' s2] GotoSTART by simp
    qed
    with START_GotoSTART[OF ne GotoSTART] show ?thesis by simp
  qed
qed

lemma afterRestarts_snoc:
  "afterRestarts X eval k s = Some s1 \<Longrightarrow> registerAttempt X eval s1 = GotoSTART s2 stack \<Longrightarrow>
   afterRestarts X eval (Suc k) s = Some s2"
proof (induction k arbitrary: s)
  case 0
  then show ?case by simp
next
  case (Suc k)
  from Suc.prems(1) obtain s' stack' where
    a: "registerAttempt X eval s = GotoSTART s' stack'" and r: "afterRestarts X eval k s' = Some s1"
    by (auto split: step.splits)
  from Suc.IH[OF r Suc.prems(2)] a show ?case by simp
qed

text \<open>
  Claim C2. When a pass of \<open>handleJobRegister\<close> reaches \<open>SubmitPlan\<close> and the
  planner returns no error, one of three things happens. A new state that is not
  nil is adopted as the snapshot, the stack's context is rebound to it, and the
  loop is entered again with the next attempt. Otherwise, when \<open>FullCommit\<close>
  says the plan was not fully committed, a line is logged and the loop is entered
  again. Otherwise the handler returns nil. In no case does the pass return an
  error.
\<close>

theorem handleJobRegister_after_submit:
  assumes reach: "registerAttempt X eval s = registerSubmit eval stack plan s2"
    and ok: "respond (planner s2) (submitted (planner s2)) plan = SubmitOk planResult newState"
    and budget: "attempts \<noteq> maxScheduleAttempts"
  shows "(let p = (planner s2)\<lparr>submitted := submitted (planner s2) @ [plan]\<rparr>
          in case newState of
               Some st \<Rightarrow>
                 registerSubmit eval stack plan s2 =
                   GotoSTART (s2\<lparr>planner := p, state := st\<rparr>) (stack\<lparr>Context := st\<rparr>) \<and>
                 handleJobRegister_START X eval attempts s =
                   handleJobRegister_START X eval (attempts + 1) (s2\<lparr>planner := p, state := st\<rparr>)
             | None \<Rightarrow>
                 (case FullCommit planResult plan of
                    (fullCommit, expected, actual) \<Rightarrow>
                      if fullCommit
                      then registerSubmit eval stack plan s2 = Return ReturnNil (s2\<lparr>planner := p\<rparr>) \<and>
                           handleJobRegister_START X eval attempts s =
                             Some (ReturnNil, attempts + 1, s2\<lparr>planner := p\<rparr>)
                      else registerSubmit eval stack plan s2 =
                             GotoSTART
                               (Printf (LogPartialCommit (eval_ID eval) (eval_JobID eval)
                                          expected actual) (s2\<lparr>planner := p\<rparr>))
                               stack \<and>
                           handleJobRegister_START X eval attempts s =
                             handleJobRegister_START X eval (attempts + 1)
                               (Printf (LogPartialCommit (eval_ID eval) (eval_JobID eval)
                                          expected actual) (s2\<lparr>planner := p\<rparr>))))
         \<and> (\<forall>err s'. registerSubmit eval stack plan s2 \<noteq> Return (ReturnErr err) s')"
  using registerSubmit_unfold[OF ok, of eval stack] reach budget
  by (auto simp: Let_def START_Return START_GotoSTART split: option.splits prod.splits)

text \<open>
  Claim C10. \<open>evictJobAllocs\<close> does not look at the plan result: when the planner
  answers its plan with no error and no new state, it returns success whatever
  the result says, also when \<open>FullCommit\<close> of that result is false. The register
  path, given such an answer to its plan, jumps back to \<open>START\<close>. Over a whole
  run, replacing every plan result the planner hands back by another one changes
  neither the outcome of \<open>evictJobAllocs\<close> nor whether it returns.
\<close>

theorem evictJobAllocs_ignores_PlanResult:
  "AllocsByJob (state s) (eval_JobID eval) = Inr allocs \<Longrightarrow> allocs \<noteq> [] \<Longrightarrow>
   respond (planner s) (submitted (planner s)) (evictPlan eval allocs) = SubmitOk planResult None \<Longrightarrow>
   evictJobAllocs eval s =
     Some (ReturnNil,
           (Printf (LogNeedsEvictions (eval_ID eval) (eval_JobID eval) (length allocs)) s)
             \<lparr>planner := (planner s)\<lparr>submitted := submitted (planner s) @ [evictPlan eval allocs]\<rparr>\<rparr>)
   \<and> (respond (planner s') (submitted (planner s')) plan = SubmitOk planResult None \<and>
      \<not> fst (FullCommit planResult plan) \<longrightarrow>
      (\<exists>s''. registerSubmit eval stack plan s' = GotoSTART s'' stack))
   \<and> map_option fst (evictJobAllocs eval (blinded r0 s)) = map_option fst (evictJobAllocs eval s)"
proof (intro conjI impI)
  assume a: "AllocsByJob (state s) (eval_JobID eval) = Inr allocs" "allocs \<noteq> []"
    and r: "respond (planner s) (submitted (planner s)) (evictPlan eval allocs) =
            SubmitOk planResult None"
  show "evictJobAllocs eval s =
     Some (ReturnNil,
           (Printf (LogNeedsEvictions (eval_ID eval) (eval_JobID eval) (length allocs)) s)
             \<lparr>planner := (planner s)\<lparr>submitted := submitted (planner s) @ [evictPlan eval allocs]\<rparr>\<rparr>)"
    using r by (simp add: evictJobAllocs_unfold[OF a] Let_def)
next
  assume "respond (planner s') (submitted (planner s')) plan = SubmitOk planResult None \<and>
          \<not> fst (FullCommit planResult plan)"
  then show "\<exists>s''. registerSubmit eval stack plan s' = GotoSTART s'' stack"
    by (auto simp: registerSubmit_unfold Let_def split: prod.splits)
next
  show "map_option fst (evictJobAllocs eval (blinded r0 s)) = map_option fst (evictJobAllocs eval s)"
    by (rule evictJobAllocs_blinded)
qed

text \<open>
  Claim C5. \<open>handleJobRegister\<close> returns nil, with the planner untouched (no plan
  submitted), when the job is absent from the snapshot, and when the diff of a
  job that has instances yields empty place, update and evict lists.
\<close>

theorem handleJobRegister_nothing_to_do:
  "(GetJobByID (state s) (eval_JobID eval) = Inr None \<longrightarrow>
      handleJobRegister X eval s =
        Some (ReturnNil, Printf (LogJobNotFound (eval_ID eval) (eval_JobID eval)) s) \<and>
      planner (Printf (LogJobNotFound (eval_ID eval) (eval_JobID eval)) s) = planner s)
   \<and> (GetJobByID (state s) (eval_JobID eval) = Inr (Some job) \<and>
       materializeTaskGroups job \<noteq> [] \<and>
       AllocsByJob (state s) (eval_JobID eval) = Inr allocs \<and>
       diffAllocs X job (materializeTaskGroups job) (indexAllocs allocs) = ([], [], [], ignore) \<longrightarrow>
      handleJobRegister X eval s =
        Some (ReturnNil,
              Printf (LogNeeds (eval_ID eval) (eval_JobID eval) 0 0 0 (length ignore)) s) \<and>
      planner (Printf (LogNeeds (eval_ID eval) (eval_JobID eval) 0 0 0 (length ignore)) s) =
        planner s)"
  by (auto simp: handleJobRegister_def START_Return maxScheduleAttempts_def Printf_def
        registerAttempt_job_missing registerAttempt_registerPlan registerPlan_empty_diff)

text \<open>
  Claim C6. For a job of the snapshot whose materialization is empty (as it is
  when every task group has count 0), \<open>handleJobRegister\<close> is the evict-all
  handler: the same result, the same final scheduler, and no result when that
  handler does not return. So \<open>Process\<close> does the same on a register and on a
  deregister evaluation that differ in the trigger only.
\<close>

theorem register_empty_materialization_is_deregister:
  assumes job: "GetJobByID (state s) (eval_JobID eval) = Inr (Some job)"
    and empty: "materializeTaskGroups job = [] \<or> (\<forall>tg \<in> set (job_TaskGroups job). tg_Count tg = 0)"
  shows "handleJobRegister X eval s = evictJobAllocs eval s \<and>
         Process X (eval\<lparr>eval_TriggeredBy := EvalTriggerJobRegister\<rparr>) s =
         Process X (eval\<lparr>eval_TriggeredBy := EvalTriggerJobDeregister\<rparr>) s"
proof -
  from empty have groups: "materializeTaskGroups job = []"
    using materializeTaskGroups_count_zero[of job] by auto
  have "handleJobRegister X e s = evictJobAllocs e s" if "eval_JobID e = eval_JobID eval" for e
  proof -
    have "registerAttempt X e s = Delegate s"
      using job groups that by (simp add: registerAttempt_Delegate)
    then show ?thesis
      by (simp add: handleJobRegister_def START_Delegate maxScheduleAttempts_def map_option_attempts)
  qed
  note this[of eval] this[of "eval\<lparr>eval_TriggeredBy := EvalTriggerJobRegister\<rparr>"]
  moreover have "evictJobAllocs (eval\<lparr>eval_TriggeredBy := t\<rparr>) s = evictJobAllocs eval s" for t
    by (rule evictJobAllocs_reads) simp_all
  ultimately show ?thesis by (simp add: Process_def)
qed

text \<open>
  Claim C9. \<open>planAllocations\<close> never returns an error: on every input its result
  is nil or the panic on a nil task group, and it is nil whenever every name to
  place is a key of \<open>groups\<close>. So no pass of \<open>handleJobRegister\<close> returns the
  "failed to plan allocations" error, and \<open>Process\<close> never returns it.
\<close>

theorem planAllocations_error_branch_unreachable:
  "fst (planAllocations X stack job plan place groups s) \<noteq> ReturnErr e
   \<and> ((\<forall>m \<in> set place. map_of groups (Name m) \<noteq> None) \<longrightarrow>
        fst (planAllocations X stack job plan place groups s) = ReturnNil)
   \<and> registerAttempt X eval s' \<noteq> Return (ReturnErr (PlanAllocsFailed e)) s''
   \<and> Process X eval s' \<noteq> Some (ReturnErr (PlanAllocsFailed e), s'')"
proof (intro conjI)
  show "fst (planAllocations X stack job plan place groups s) \<noteq> ReturnErr e"
    by (rule planAllocations_never_fails)
  show "(\<forall>m \<in> set place. map_of groups (Name m) \<noteq> None) \<longrightarrow>
        fst (planAllocations X stack job plan place groups s) = ReturnNil"
    by (simp add: planAllocations_returns)
  show "registerAttempt X eval s' \<noteq> Return (ReturnErr (PlanAllocsFailed e)) s''"
    using registerAttempt_error by blast
  show "Process X eval s' \<noteq> Some (ReturnErr (PlanAllocsFailed e), s'')"
  proof
    assume p: "Process X eval s' = Some (ReturnErr (PlanAllocsFailed e), s'')"
    show False
    proof (cases "eval_TriggeredBy eval")
      case EvalTriggerJobRegister
      with p obtain n where "handleJobRegister_START X eval 0 s' =
          Some (ReturnErr (PlanAllocsFailed e), n, s'')"
        by (auto simp: Process_def handleJobRegister_def)
      then show False using START_error by fastforce
    next
      case EvalTriggerJobDeregister
      with p show False using evictJobAllocs_error by (fastforce simp: Process_def)
    next
      case EvalTriggerNodeUpdate
      with p show False by (simp add: Process_def handleNodeUpdate_def)
    next
      case (EvalTriggerOther x)
      with p show False by (simp add: Process_def)
    qed
  qed
qed

text \<open>
  Claim C1, as amended. The loop of \<open>handleJobRegister\<close> makes at most
  \<open>maxScheduleAttempts = 5\<close> passes whatever the planner answers, and when five
  passes in a row end in \<open>goto START\<close> it returns the error "maximum schedule
  attempts reached (5)". The call returns provided the evict-all handler returns
  whenever a pass hands over to it; that handler has no attempt bound.
\<close>

theorem handleJobRegister_attempts_bounded:
  assumes "\<And>k s1 s2. k < maxScheduleAttempts \<Longrightarrow> afterRestarts X eval k s = Some s1 \<Longrightarrow>
             registerAttempt X eval s1 = Delegate s2 \<Longrightarrow> evictJobAllocs eval s2 \<noteq> None"
  shows "(\<exists>r n s'. handleJobRegister_START X eval 0 s = Some (r, n, s') \<and>
                    n \<le> maxScheduleAttempts \<and>
                    handleJobRegister X eval s = Some (r, s'))
       \<and> (\<forall>s'. afterRestarts X eval maxScheduleAttempts s = Some s' \<longrightarrow>
                handleJobRegister X eval s = Some (ReturnErr (MaxAttemptsReached 5), s'))"
proof (intro conjI allI impI)
  from START_terminates[of 0 maxScheduleAttempts X eval s] assms
  obtain r n s' where "handleJobRegister_START X eval 0 s = Some (r, n, s')"
    "n \<le> maxScheduleAttempts"
    by auto
  then show "\<exists>r n s'. handleJobRegister_START X eval 0 s = Some (r, n, s') \<and>
                    n \<le> maxScheduleAttempts \<and>
                    handleJobRegister X eval s = Some (r, s')"
    by (simp add: handleJobRegister_def)
next
  fix s'
  assume "afterRestarts X eval maxScheduleAttempts s = Some s'"
  from START_all_restart[OF _ this, of 0]
  show "handleJobRegister X eval s = Some (ReturnErr (MaxAttemptsReached 5), s')"
    by (simp add: handleJobRegister_def maxScheduleAttempts_def)
qed

section \<open>The claims on the small cluster\<close>

lemma ex_sched_simps [simp]:
  "state (ex_sched st r) = st" "planner (ex_sched st r) = ex_planner r"
  "logger (ex_sched st r) = []" "uuids (ex_sched st r) = 0"
  by (simp_all add: ex_sched_def)

lemma ex_state_simps [simp]:
  "GetJobByID (ex_state job allocs) ''web'' = Inr job"
  "AllocsByJob (ex_state job allocs) ''web'' = Inr allocs"
  "NodesByDatacenterStatus (ex_state job allocs) ''dc1'' NodeStatusReady = Inr [ex_node]"
  by (simp_all add: ex_state_def)

lemma ex_eval_simps [simp]:
  "eval_ID (ex_eval t) = ''e1''" "eval_JobID (ex_eval t) = ''web''"
  "eval_Priority (ex_eval t) = 50" "eval_TriggeredBy (ex_eval t) = t"
  by (simp_all add: ex_eval_def)

lemma ex_planner_simps [simp]:
  "respond (ex_planner r) earlier plan = r" "submitted (ex_planner r) = []"
  by (simp_all add: ex_planner_def)

lemma ex_job_ID [simp]: "job_ID (ex_job n) = ''web''"
  by (simp add: ex_job_def)

lemma ex_evictPlan:
  "evictPlan (ex_eval t) ex_allocs =
     \<lparr>plan_EvalID = ''e1'', plan_Priority = 50,
      NodeEvict = [(''n1'', [''a1'', ''a3'']), (''n2'', [''a2''])], NodeAllocation = []\<rparr>"
  by (simp add: evictPlan_def ex_allocs_def ex_alloc_def AppendEvict_def)

lemma decimal_digits: "decimal 0 = ''0''" "decimal 1 = ''1''" "decimal (Suc 0) = ''1''"
  by (simp_all add: decimal.simps)

lemma ex_materialize:
  "materializeTaskGroups (ex_job 0) = []"
  "materializeTaskGroups (ex_job 1) = [(''web.fe[0]'', ex_group 1)]"
  "materializeTaskGroups (ex_job 2) = [(''web.fe[0]'', ex_group 2), (''web.fe[1]'', ex_group 2)]"
  by (simp_all add: materializeTaskGroups_def ex_job_def ex_group_def allocName_def
        decimal_digits upt_rec)

lemma ex_iterStack:
  "state s = ex_state job allocs \<Longrightarrow>
   iterStack ex_X s (ex_job n) plan =
     Inr \<lparr>Context = ex_state job allocs, BaseNodes = [ex_node], JobConstraint = [],
          TaskGroupDrivers = {}, TaskGroupConstraint = [],
          BinPack_Resources = None, BinPack_Evict = False, BinPack_Priority = 50,
          Limit = 2, iterators = 0\<rparr>"
  by (simp add: iterStack_def baseNodes_def ex_job_def ex_X_def)

lemma ex_run_simps [simp]:
  "state (ex_run r k) = ex_fresh" "uuids (ex_run r k) = k"
  "respond (planner (ex_run r k)) earlier plan = r"
  "submitted (planner (ex_run r k)) = map ex_placed [0 ..< k]"
  by (simp_all add: ex_run_def ex_planner_def)

lemma ex_run_state [simp]: "(ex_run r k)\<lparr>state := ex_fresh\<rparr> = ex_run r k"
  by (simp add: ex_run_def)

lemma ex_run_next:
  "(Printf (LogNeeds ''e1'' ''web'' 1 0 0 0) (ex_run r k))
     \<lparr>uuids := Suc k,
      planner := (planner (ex_run r k))\<lparr>submitted := map ex_placed [0 ..< k] @ [ex_placed k]\<rparr>\<rparr>
   = ex_run r (Suc k)"
  by (simp add: ex_run_def Printf_def replicate_append_same)

lemma ex_FullCommit:
  "FullCommit (ex_result full) (ex_placed k) = (full, 1, 0)"
  by (simp add: ex_result_def ex_placed_def pending_def)

lemma ex_attempt:
  assumes "state s = ex_fresh"
  shows "registerAttempt ex_X (ex_eval t) s =
     registerSubmit (ex_eval t) (ex_stack ex_fresh) (ex_placed (uuids s))
       ((Printf (LogNeeds ''e1'' ''web'' 1 0 0 0) s)\<lparr>uuids := Suc (uuids s)\<rparr>)"
proof -
  have d: "diffAllocs ex_X (ex_job 1) [(''web.fe[0]'', ex_group 1)] (indexAllocs []) =
           ([\<lparr>Name = ''web.fe[0]''\<rparr>], [], [], [])"
    by (simp add: ex_X_def ex_diff_def indexAllocs_def)
  have st: "state (Printf l s) = ex_state (Some (ex_job 1)) []" for l
    using assms by (simp add: Printf_def ex_fresh_def)
  have p: "planAllocations ex_X
             \<lparr>Context = ex_state (Some (ex_job 1)) [], BaseNodes = [ex_node], JobConstraint = [],
              TaskGroupDrivers = {}, TaskGroupConstraint = [],
              BinPack_Resources = None, BinPack_Evict = False, BinPack_Priority = 50,
              Limit = 2, iterators = 0\<rparr>
             (ex_job 1) (MakePlan (ex_eval t) (ex_job 1)) [\<lparr>Name = ''web.fe[0]''\<rparr>]
             [(''web.fe[0]'', ex_group 1)] s' =
           (ReturnNil, ex_stack ex_fresh, ex_placed (uuids s'), s'\<lparr>uuids := Suc (uuids s')\<rparr>)" for s'
    by (simp add: ex_X_def ex_group_def ex_task_def ex_stack_def ex_fresh_def ex_placed_def
          ex_pending_def MakePlan_def AppendAlloc_def ex_node_def ex_job_def Let_def)
  have "registerAttempt ex_X (ex_eval t) s =
        registerPlan ex_X (ex_eval t) (ex_job 1) (materializeTaskGroups (ex_job 1)) [] s"
    using assms by (intro registerAttempt_registerPlan) (simp_all add: ex_fresh_def ex_materialize)
  also have "\<dots> = registerSubmit (ex_eval t) (ex_stack ex_fresh) (ex_placed (uuids s))
       ((Printf (LogNeeds ''e1'' ''web'' 1 0 0 0) s)\<lparr>uuids := Suc (uuids s)\<rparr>)"
    unfolding ex_materialize
    apply (subst registerPlan_unfold[OF d _ refl refl])
     apply simp
    apply (simp add: addEvictsToPlan_def ex_iterStack[OF st] p del: planAllocations.simps)
    apply (simp add: Printf_def)
    done
  finally show ?thesis .
qed

lemma ex_attempt_reaches_submit:
  "registerAttempt ex_X (ex_eval t) (ex_run r k) =
     registerSubmit (ex_eval t) (ex_stack ex_fresh) (ex_placed k)
       ((Printf (LogNeeds ''e1'' ''web'' 1 0 0 0) (ex_run r k))\<lparr>uuids := Suc k\<rparr>)"
  using ex_attempt[of "ex_run r k" t] by simp

lemma ex_refresh_attempt:
  "registerAttempt ex_X (ex_eval t) (ex_run ex_refresh k) =
     GotoSTART (ex_run ex_refresh (Suc k)) (ex_stack ex_fresh)"
proof -
  let ?s2 = "(Printf (LogNeeds ''e1'' ''web'' 1 0 0 0) (ex_run ex_refresh k))\<lparr>uuids := Suc k\<rparr>"
  have ok: "respond (planner ?s2) (submitted (planner ?s2)) (ex_placed k) =
            SubmitOk (ex_result True) (Some ex_fresh)"
    by (simp add: Printf_def ex_refresh_def)
  have nxt: "?s2\<lparr>planner := (planner ?s2)\<lparr>submitted := submitted (planner ?s2) @ [ex_placed k]\<rparr>\<rparr>
              = ex_run ex_refresh (Suc k)"
    using ex_run_next[where r = ex_refresh and k = k] by (simp add: Printf_def)
  have stack: "(ex_stack ex_fresh)\<lparr>Context := ex_fresh\<rparr> = ex_stack ex_fresh"
    by (simp add: ex_stack_def)
  show ?thesis
    unfolding ex_attempt_reaches_submit registerSubmit_unfold[OF ok] Let_def nxt
    by (simp add: stack)
qed

lemma ex_afterRestarts:
  "afterRestarts ex_X (ex_eval t) k (ex_run ex_refresh 0) = Some (ex_run ex_refresh k)"
proof (induction k)
  case 0
  show ?case by simp
next
  case (Suc k)
  from afterRestarts_snoc[OF Suc ex_refresh_attempt] show ?case .
qed

lemma ex_zero_delegates:
  "registerAttempt ex_X (ex_eval t) (ex_sched ex_zero r) = Delegate (ex_sched ex_zero r)"
  by (rule registerAttempt_Delegate[where job = "ex_job 0"])
     (simp_all add: ex_zero_def ex_materialize)

lemma ex_ignored_diff:
  "diffAllocs ex_X (ex_job 1) (materializeTaskGroups (ex_job 1))
     (indexAllocs [ex_alloc ''a1'' ''web.fe[0]'' ''n1'' (ex_job 1)]) =
   ([], [], [], [\<lparr>Name = ''web.fe[0]''\<rparr>])"
  by (simp add: ex_materialize ex_X_def ex_diff_def indexAllocs_def ex_alloc_def)

lemma ex_place_one:
  "planAllocations ex_X (ex_built ex_fresh [ex_node]) (ex_job 1)
     (MakePlan (ex_eval t) (ex_job 1)) [\<lparr>Name = ''web.fe[0]''\<rparr>]
     [(''web.fe[0]'', ex_group 1)] s =
   (ReturnNil, ex_stack ex_fresh, ex_placed (uuids s), s\<lparr>uuids := Suc (uuids s)\<rparr>)"
  by (simp add: ex_X_def ex_group_def ex_task_def ex_stack_def ex_built_def ex_placed_def
        ex_pending_def MakePlan_def AppendAlloc_def ex_node_def ex_job_def Let_def)

lemma ex_place_none:
  "planAllocations ex_X (ex_built ex_fresh []) (ex_job 1)
     (MakePlan (ex_eval t) (ex_job 1)) [\<lparr>Name = ''web.fe[0]''\<rparr>]
     [(''web.fe[0]'', ex_group 1)] s =
   (ReturnNil, (ex_stack ex_fresh)\<lparr>BaseNodes := []\<rparr>, MakePlan (ex_eval t) (ex_job 1),
    Printf (LogFailedToPlace \<lparr>Name = ''web.fe[0]''\<rparr> ''web'') s)"
  by (simp add: ex_X_def ex_group_def ex_task_def ex_stack_def ex_built_def
        ex_job_def Let_def)

lemma ex_jobs_differ: "ex_job 1 \<noteq> ex_job 2"
  by (simp add: ex_job_def ex_group_def)

lemma ex_changed_index:
  "indexAllocs ex_old = [(''web.fe[0]'', ex_alloc ''a1'' ''web.fe[0]'' ''n1'' (ex_job 1)),
                         (''web.fe[7]'', ex_alloc ''a9'' ''web.fe[7]'' ''n2'' (ex_job 1))]"
  by (simp add: indexAllocs_def ex_old_def ex_alloc_def)

lemma ex_changed_diff:
  "diffAllocs ex_X (ex_job 2) (materializeTaskGroups (ex_job 2)) (indexAllocs ex_old) =
   ([\<lparr>Name = ''web.fe[1]''\<rparr>], [\<lparr>Name = ''web.fe[0]''\<rparr>], [\<lparr>Name = ''web.fe[7]''\<rparr>], [])"
  using ex_jobs_differ
  by (simp add: ex_materialize ex_changed_index ex_X_def ex_diff_def) (simp add: ex_alloc_def)

lemma ex_changed_plan:
  "addEvictsToPlan
     (addEvictsToPlan (MakePlan (ex_eval t) (ex_job 2)) [\<lparr>Name = ''web.fe[7]''\<rparr>] (indexAllocs ex_old))
     [\<lparr>Name = ''web.fe[0]''\<rparr>] (indexAllocs ex_old) =
   \<lparr>plan_EvalID = ''e1'', plan_Priority = 50,
    NodeEvict = [(''n2'', [''a9'']), (''n1'', [''a1''])], NodeAllocation = []\<rparr>"
  by (simp add: ex_changed_index addEvictsToPlan_def AppendEvict_def MakePlan_def ex_alloc_def)

lemma ex_changed_place:
  "planAllocations ex_X (ex_built (ex_state (Some (ex_job 2)) ex_old) [ex_node]) (ex_job 2)
     \<lparr>plan_EvalID = ''e1'', plan_Priority = 50,
      NodeEvict = [(''n2'', [''a9'']), (''n1'', [''a1''])], NodeAllocation = []\<rparr>
     [\<lparr>Name = ''web.fe[1]''\<rparr>, \<lparr>Name = ''web.fe[0]''\<rparr>]
     (materializeTaskGroups (ex_job 2)) s =
   (ReturnNil, ex_stack (ex_state (Some (ex_job 2)) ex_old),
    \<lparr>plan_EvalID = ''e1'', plan_Priority = 50,
      NodeEvict = [(''n2'', [''a9'']), (''n1'', [''a1''])],
      NodeAllocation = [(''n1'', [ex_pending (uuids s) ''web.fe[1]'' (ex_job 2),
                                  ex_pending (Suc (uuids s)) ''web.fe[0]'' (ex_job 2)])]\<rparr>,
    s\<lparr>uuids := Suc (Suc (uuids s))\<rparr>)"
  by (simp add: ex_materialize ex_X_def ex_group_def ex_task_def ex_stack_def ex_built_def
        ex_pending_def AppendAlloc_def ex_node_def Let_def)

theorem evictJobAllocs_evicts_every_alloc_witness:
  "evictJobAllocs (ex_eval EvalTriggerJobDeregister)
     (ex_sched (ex_state None []) (SubmitOk (ex_result True) None)) =
     Some (ReturnNil,
           Printf (LogNeedsEvictions ''e1'' ''web'' 0)
             (ex_sched (ex_state None []) (SubmitOk (ex_result True) None)))
   \<and> evictJobAllocs (ex_eval EvalTriggerJobDeregister)
     (ex_sched (ex_state None ex_allocs) (SubmitOk (ex_result False) None)) =
     Some (ReturnNil,
           (Printf (LogNeedsEvictions ''e1'' ''web'' 3)
              (ex_sched (ex_state None ex_allocs) (SubmitOk (ex_result False) None)))
           \<lparr>planner := (ex_planner (SubmitOk (ex_result False) None))
               \<lparr>submitted := [\<lparr>plan_EvalID = ''e1'', plan_Priority = 50,
                    NodeEvict = [(''n1'', [''a1'', ''a3'']), (''n2'', [''a2''])],
                    NodeAllocation = []\<rparr>]\<rparr>\<rparr>)
   \<and> evictJobAllocs (ex_eval EvalTriggerJobDeregister)
     (ex_sched (ex_state None ex_allocs)
        (SubmitOk (ex_result True) (Some (ex_state None ex_allocs)))) = None"
proof (intro conjI)
  let ?e = "ex_eval EvalTriggerJobDeregister"
  show "evictJobAllocs ?e (ex_sched (ex_state None []) (SubmitOk (ex_result True) None)) =
     Some (ReturnNil,
           Printf (LogNeedsEvictions ''e1'' ''web'' 0)
             (ex_sched (ex_state None []) (SubmitOk (ex_result True) None)))"
    using evictJobAllocs_evicts_every_alloc
            [of "ex_sched (ex_state None []) (SubmitOk (ex_result True) None)" ?e "[]"]
    by simp
  have ne: "ex_allocs \<noteq> []" and len: "length ex_allocs = 3" by (simp_all add: ex_allocs_def)
  show "evictJobAllocs ?e (ex_sched (ex_state None ex_allocs) (SubmitOk (ex_result False) None)) =
     Some (ReturnNil,
           (Printf (LogNeedsEvictions ''e1'' ''web'' 3)
              (ex_sched (ex_state None ex_allocs) (SubmitOk (ex_result False) None)))
           \<lparr>planner := (ex_planner (SubmitOk (ex_result False) None))
               \<lparr>submitted := [\<lparr>plan_EvalID = ''e1'', plan_Priority = 50,
                    NodeEvict = [(''n1'', [''a1'', ''a3'']), (''n2'', [''a2''])],
                    NodeAllocation = []\<rparr>]\<rparr>\<rparr>)"
    using evictJobAllocs_evicts_every_alloc
            [of "ex_sched (ex_state None ex_allocs) (SubmitOk (ex_result False) None)" ?e ex_allocs]
          ne len
    by (simp add: Let_def ex_evictPlan)
  show "evictJobAllocs ?e (ex_sched (ex_state None ex_allocs)
        (SubmitOk (ex_result True) (Some (ex_state None ex_allocs)))) = None"
    using evictJobAllocs_evicts_every_alloc
            [of "ex_sched (ex_state None ex_allocs)
                   (SubmitOk (ex_result True) (Some (ex_state None ex_allocs)))" ?e ex_allocs]
          ne
    by simp
qed

theorem planAllocations_places_each_name_witness:
  "planAllocations ex_X (ex_built ex_fresh [ex_node]) (ex_job 1)
     (MakePlan (ex_eval EvalTriggerJobRegister) (ex_job 1)) [\<lparr>Name = ''web.fe[0]''\<rparr>]
     [(''web.fe[0]'', ex_group 1)] (ex_run ex_refresh 0) =
   (ReturnNil, ex_stack ex_fresh, ex_placed 0, (ex_run ex_refresh 0)\<lparr>uuids := 1\<rparr>)
   \<and> (\<exists>new (failed :: allocNameID list).
         mset (pending (ex_placed 0)) =
           mset (pending (MakePlan (ex_eval EvalTriggerJobRegister) (ex_job 1))) + mset new \<and>
         map alloc_ID new = map (GenerateUUID ex_X) [0 ..< 1] \<and>
         mset (map alloc_Name new) + mset (map Name failed) = {#''web.fe[0]''#})"
proof -
  let ?plan = "MakePlan (ex_eval EvalTriggerJobRegister) (ex_job 1)"
  let ?groups = "[(''web.fe[0]'', ex_group 1)]"
  note t = planAllocations_places_each_name
             [where X = ex_X and job = "ex_job 1" and groups = ?groups and plan = ?plan
                and s = "ex_run ex_refresh 0"]
  have key: "map_of ?groups (Name \<lparr>Name = ''web.fe[0]''\<rparr>) = Some (ex_group 1)" by simp
  have step: "planAllocations ex_X (ex_built ex_fresh [ex_node]) (ex_job 1) ?plan
                [\<lparr>Name = ''web.fe[0]''\<rparr>] ?groups (ex_run ex_refresh 0) =
              (ReturnNil, ex_stack ex_fresh, ex_placed 0, (ex_run ex_refresh 0)\<lparr>uuids := 1\<rparr>)"
    using t[where stack = "ex_built ex_fresh [ex_node]" and missing = "\<lparr>Name = ''web.fe[0]''\<rparr>"
              and place = "[]" and taskGroup = "ex_group 1", THEN conjunct1, rule_format, OF key]
    by (simp add: ex_X_def ex_group_def ex_task_def ex_stack_def ex_built_def ex_placed_def
          ex_pending_def MakePlan_def AppendAlloc_def ex_node_def ex_job_def Let_def)
  from t[where stack = "ex_built ex_fresh [ex_node]" and place = "[\<lparr>Name = ''web.fe[0]''\<rparr>]"
           and ?stack1.0 = "ex_stack ex_fresh" and ?plan1.0 = "ex_placed 0"
           and ?s1.0 = "(ex_run ex_refresh 0)\<lparr>uuids := 1\<rparr>",
         THEN conjunct2, THEN conjunct1, rule_format, OF step]
  have "\<exists>new failed. mset (pending (ex_placed 0)) = mset (pending ?plan) + mset new \<and>
     map alloc_ID new = map (GenerateUUID ex_X)
       [uuids (ex_run ex_refresh 0) ..< uuids ((ex_run ex_refresh 0)\<lparr>uuids := 1\<rparr>)] \<and>
     mset (map alloc_Name new) + mset (map Name failed) =
       mset (map Name [\<lparr>Name = ''web.fe[0]''\<rparr>]) \<and>
     logger ((ex_run ex_refresh 0)\<lparr>uuids := 1\<rparr>) =
       logger (ex_run ex_refresh 0) @
       map (\<lambda>m. LogFailedToPlace m (job_ID (ex_job 1))) failed \<and>
     (\<forall>a \<in> set new.
        alloc_Status a = AllocStatusPending \<and> alloc_Job a = ex_job 1 \<and>
        alloc_JobID a = job_ID (ex_job 1) \<and>
        (\<exists>tg. map_of ?groups (alloc_Name a) = Some tg \<and>
              alloc_Resources a = foldl (+) 0 (map task_Resources (tg_Tasks tg))))"
    (is "\<exists>new failed. ?P new failed") .
  then obtain new failed where "?P new failed" by blast
  then have
    "mset (pending (ex_placed 0)) = mset (pending ?plan) + mset new \<and>
     map alloc_ID new = map (GenerateUUID ex_X) [0 ..< 1] \<and>
     mset (map alloc_Name new) + mset (map Name failed) = {#''web.fe[0]''#}"
    by (elim conjE) simp
  with step show ?thesis by blast
qed

theorem handleJobRegister_updates_evict_then_place_witness:
  "registerAttempt ex_X (ex_eval EvalTriggerJobRegister)
     (ex_sched (ex_state (Some (ex_job 2)) ex_old) (SubmitOk (ex_result True) None)) =
   registerSubmit (ex_eval EvalTriggerJobRegister)
     (ex_stack (ex_state (Some (ex_job 2)) ex_old)) ex_replaced
     ((Printf (LogNeeds ''e1'' ''web'' 1 1 1 0)
         (ex_sched (ex_state (Some (ex_job 2)) ex_old) (SubmitOk (ex_result True) None)))
        \<lparr>uuids := 2\<rparr>)
   \<and> mset (evict_entries ex_replaced) = {#(''n2'', ''a9''), (''n1'', ''a1'')#}
   \<and> mset (map alloc_Name (pending ex_replaced)) = {#''web.fe[1]'', ''web.fe[0]''#}"
proof -
  let ?st = "ex_state (Some (ex_job 2)) ex_old"
  let ?s = "ex_sched ?st (SubmitOk (ex_result True) None)"
  let ?e = "ex_eval EvalTriggerJobRegister"
  let ?s1 = "Printf (LogNeeds (eval_ID ?e) (eval_JobID ?e)
               (length [\<lparr>Name = ''web.fe[1]''\<rparr>]) (length [\<lparr>Name = ''web.fe[0]''\<rparr>])
               (length [\<lparr>Name = ''web.fe[7]''\<rparr>]) (length ([] :: allocNameID list))) ?s"
  let ?plan = "addEvictsToPlan
     (addEvictsToPlan (MakePlan ?e (ex_job 2)) [\<lparr>Name = ''web.fe[7]''\<rparr>] (indexAllocs ex_old))
     [\<lparr>Name = ''web.fe[0]''\<rparr>] (indexAllocs ex_old)"
  have job: "GetJobByID (state ?s) (eval_JobID ?e) = Inr (Some (ex_job 2))" by simp
  have groups: "materializeTaskGroups (ex_job 2) \<noteq> []" by (simp add: ex_materialize)
  have allocs: "AllocsByJob (state ?s) (eval_JobID ?e) = Inr ex_old" by simp
  have work: "\<not> ([\<lparr>Name = ''web.fe[1]''\<rparr>] = [] \<and> [\<lparr>Name = ''web.fe[0]''\<rparr>] = [] \<and>
                 [\<lparr>Name = ''web.fe[7]''\<rparr>] = [])" by simp
  have stack: "iterStack ex_X ?s1 (ex_job 2) ?plan = Inr (ex_built ?st [ex_node])"
    by (subst ex_iterStack[where job = "Some (ex_job 2)" and allocs = ex_old])
       (simp_all add: Printf_def ex_built_def)
  have placed: "planAllocations ex_X (ex_built ?st [ex_node]) (ex_job 2) ?plan
                  ([\<lparr>Name = ''web.fe[1]''\<rparr>] @ [\<lparr>Name = ''web.fe[0]''\<rparr>])
                  (materializeTaskGroups (ex_job 2)) ?s1 =
                (ReturnNil, ex_stack ?st, ex_replaced, ?s1\<lparr>uuids := 2\<rparr>)"
    unfolding ex_changed_plan
    by (simp add: ex_changed_place ex_replaced_def Printf_def del: planAllocations.simps)
  from handleJobRegister_updates_evict_then_place
         [OF job refl groups allocs refl ex_changed_diff work refl refl stack placed]
  show ?thesis
    by (simp add: ex_changed_index evictEntry_def ex_alloc_def)
qed

theorem handleJobRegister_after_submit_witness:
  "handleJobRegister_START ex_X (ex_eval EvalTriggerJobRegister) 0 (ex_run ex_refresh 0) =
     handleJobRegister_START ex_X (ex_eval EvalTriggerJobRegister) 1 (ex_run ex_refresh 1)
   \<and> handleJobRegister_START ex_X (ex_eval EvalTriggerJobRegister) 0
       (ex_run (SubmitOk (ex_result False) None) 0) =
     handleJobRegister_START ex_X (ex_eval EvalTriggerJobRegister) 1
       (Printf (LogPartialCommit ''e1'' ''web'' 1 0) (ex_run (SubmitOk (ex_result False) None) 1))
   \<and> handleJobRegister_START ex_X (ex_eval EvalTriggerJobRegister) 0
       (ex_run (SubmitOk (ex_result True) None) 0) =
     Some (ReturnNil, 1, ex_run (SubmitOk (ex_result True) None) 1)"
proof (intro conjI)
  let ?e = "ex_eval EvalTriggerJobRegister"
  let ?s2 = "\<lambda>r. (Printf (LogNeeds ''e1'' ''web'' 1 0 0 0) (ex_run r 0))\<lparr>uuids := Suc 0\<rparr>"
  have budget: "(0::nat) \<noteq> maxScheduleAttempts" by (simp add: maxScheduleAttempts_def)
  have nxt: "(?s2 r)\<lparr>planner := (planner (?s2 r))\<lparr>submitted := submitted (planner (?s2 r)) @ [ex_placed 0]\<rparr>\<rparr>
              = ex_run r 1" for r
    using ex_run_next[where r = r and k = 0] by (simp add: Printf_def)
  have ok: "respond (planner (?s2 r)) (submitted (planner (?s2 r))) (ex_placed 0) = r" for r
    by (simp add: Printf_def)
  have stack: "(ex_stack ex_fresh)\<lparr>Context := ex_fresh\<rparr> = ex_stack ex_fresh"
    by (simp add: ex_stack_def)
  note reach = ex_attempt_reaches_submit[of EvalTriggerJobRegister _ 0]
  show "handleJobRegister_START ex_X ?e 0 (ex_run ex_refresh 0) =
        handleJobRegister_START ex_X ?e 1 (ex_run ex_refresh 1)"
    using handleJobRegister_after_submit[OF reach ok[of ex_refresh, unfolded ex_refresh_def] budget]
    unfolding Let_def nxt ex_refresh_def[symmetric]
    by simp
  show "handleJobRegister_START ex_X ?e 0 (ex_run (SubmitOk (ex_result False) None) 0) =
     handleJobRegister_START ex_X ?e 1
       (Printf (LogPartialCommit ''e1'' ''web'' 1 0) (ex_run (SubmitOk (ex_result False) None) 1))"
    using handleJobRegister_after_submit[OF reach ok[of "SubmitOk (ex_result False) None"] budget]
    unfolding Let_def nxt ex_FullCommit
    by simp
  show "handleJobRegister_START ex_X ?e 0 (ex_run (SubmitOk (ex_result True) None) 0) =
     Some (ReturnNil, 1, ex_run (SubmitOk (ex_result True) None) 1)"
    using handleJobRegister_after_submit[OF reach ok[of "SubmitOk (ex_result True) None"] budget]
    unfolding Let_def nxt ex_FullCommit
    by simp
qed

theorem evictJobAllocs_ignores_PlanResult_witness:
  "evictJobAllocs (ex_eval EvalTriggerJobDeregister)
     (ex_sched (ex_state None ex_allocs) (SubmitOk (ex_result False) None)) =
     Some (ReturnNil,
           (Printf (LogNeedsEvictions ''e1'' ''web'' 3)
              (ex_sched (ex_state None ex_allocs) (SubmitOk (ex_result False) None)))
           \<lparr>planner := (ex_planner (SubmitOk (ex_result False) None))
               \<lparr>submitted := [evictPlan (ex_eval EvalTriggerJobDeregister) ex_allocs]\<rparr>\<rparr>)
   \<and> \<not> fst (FullCommit (ex_result False) (evictPlan (ex_eval EvalTriggerJobDeregister) ex_allocs))
   \<and> (\<exists>s''. registerSubmit (ex_eval EvalTriggerJobDeregister) (ex_stack ex_fresh) (ex_placed 0)
              (ex_run (SubmitOk (ex_result False) None) 0) =
            GotoSTART s'' (ex_stack ex_fresh))"
proof -
  have ne: "ex_allocs \<noteq> []" and len: "length ex_allocs = 3" by (simp_all add: ex_allocs_def)
  from evictJobAllocs_ignores_PlanResult
         [of "ex_sched (ex_state None ex_allocs) (SubmitOk (ex_result False) None)"
             "ex_eval EvalTriggerJobDeregister" ex_allocs "ex_result False"
             "ex_run (SubmitOk (ex_result False) None) 0" "ex_placed 0" "ex_stack ex_fresh"]
  show ?thesis
    using ne len by (simp add: ex_FullCommit) (simp add: ex_result_def)
qed

theorem handleJobRegister_nothing_to_do_witness:
  "handleJobRegister ex_X (ex_eval EvalTriggerJobRegister)
     (ex_sched (ex_state None []) (SubmitOk (ex_result True) None)) =
     Some (ReturnNil,
           Printf (LogJobNotFound ''e1'' ''web'')
             (ex_sched (ex_state None []) (SubmitOk (ex_result True) None)))
   \<and> handleJobRegister ex_X (ex_eval EvalTriggerJobRegister)
     (ex_sched ex_ignored (SubmitOk (ex_result True) None)) =
     Some (ReturnNil,
           Printf (LogNeeds ''e1'' ''web'' 0 0 0 1)
             (ex_sched ex_ignored (SubmitOk (ex_result True) None)))
   \<and> submitted (planner (Printf (LogNeeds ''e1'' ''web'' 0 0 0 1)
             (ex_sched ex_ignored (SubmitOk (ex_result True) None)))) = []"
proof -
  have m: "materializeTaskGroups (ex_job 1) \<noteq> []" by (simp add: ex_materialize)
  from handleJobRegister_nothing_to_do
         [of "ex_sched (ex_state None []) (SubmitOk (ex_result True) None)"
             "ex_eval EvalTriggerJobRegister" ex_X]
       handleJobRegister_nothing_to_do
         [of "ex_sched ex_ignored (SubmitOk (ex_result True) None)"
             "ex_eval EvalTriggerJobRegister" ex_X "ex_job 1"
             "[ex_alloc ''a1'' ''web.fe[0]'' ''n1'' (ex_job 1)]" "[\<lparr>Name = ''web.fe[0]''\<rparr>]"]
  show ?thesis
    using m ex_ignored_diff by (simp add: ex_ignored_def)
qed

theorem register_empty_materialization_is_deregister_witness:
  "handleJobRegister ex_X (ex_eval EvalTriggerJobRegister)
     (ex_sched ex_zero (SubmitOk (ex_result True) None)) =
   evictJobAllocs (ex_eval EvalTriggerJobRegister)
     (ex_sched ex_zero (SubmitOk (ex_result True) None))
   \<and> Process ex_X (ex_eval EvalTriggerJobRegister)
       (ex_sched ex_zero (SubmitOk (ex_result True) None)) =
     Process ex_X (ex_eval EvalTriggerJobDeregister)
       (ex_sched ex_zero (SubmitOk (ex_result True) None))"
proof -
  have t: "(ex_eval t)\<lparr>eval_TriggeredBy := t'\<rparr> = ex_eval t'" for t t'
    by (simp add: ex_eval_def)
  have z: "\<forall>tg \<in> set (job_TaskGroups (ex_job 0)). tg_Count tg = 0"
    by (simp add: ex_job_def ex_group_def)
  from register_empty_materialization_is_deregister
         [of "ex_sched ex_zero (SubmitOk (ex_result True) None)"
             "ex_eval EvalTriggerJobRegister" "ex_job 0" ex_X]
  show ?thesis using z by (simp add: ex_zero_def t)
qed

theorem planAllocations_error_branch_unreachable_witness:
  "fst (planAllocations ex_X (ex_built ex_fresh []) (ex_job 1)
          (MakePlan (ex_eval EvalTriggerJobRegister) (ex_job 1)) [\<lparr>Name = ''web.fe[0]''\<rparr>]
          [(''web.fe[0]'', ex_group 1)] (ex_run ex_refresh 0)) = ReturnNil
   \<and> logger (snd (snd (snd (planAllocations ex_X (ex_built ex_fresh []) (ex_job 1)
          (MakePlan (ex_eval EvalTriggerJobRegister) (ex_job 1)) [\<lparr>Name = ''web.fe[0]''\<rparr>]
          [(''web.fe[0]'', ex_group 1)] (ex_run ex_refresh 0))))) =
       [LogFailedToPlace \<lparr>Name = ''web.fe[0]''\<rparr> ''web'']"
proof
  from planAllocations_error_branch_unreachable
         [where X = ex_X and stack = "ex_built ex_fresh []" and job = "ex_job 1"
            and plan = "MakePlan (ex_eval EvalTriggerJobRegister) (ex_job 1)"
            and place = "[\<lparr>Name = ''web.fe[0]''\<rparr>]" and groups = "[(''web.fe[0]'', ex_group 1)]"
            and s = "ex_run ex_refresh 0", THEN conjunct2, THEN conjunct1]
  show "fst (planAllocations ex_X (ex_built ex_fresh []) (ex_job 1)
          (MakePlan (ex_eval EvalTriggerJobRegister) (ex_job 1)) [\<lparr>Name = ''web.fe[0]''\<rparr>]
          [(''web.fe[0]'', ex_group 1)] (ex_run ex_refresh 0)) = ReturnNil"
    by (simp del: planAllocations.simps)
  show "logger (snd (snd (snd (planAllocations ex_X (ex_built ex_fresh []) (ex_job 1)
          (MakePlan (ex_eval EvalTriggerJobRegister) (ex_job 1)) [\<lparr>Name = ''web.fe[0]''\<rparr>]
          [(''web.fe[0]'', ex_group 1)] (ex_run ex_refresh 0))))) =
       [LogFailedToPlace \<lparr>Name = ''web.fe[0]''\<rparr> ''web'']"
    by (simp add: ex_place_none Printf_def ex_run_def del: planAllocations.simps)
qed

theorem handleJobRegister_attempts_bounded_witness:
  "handleJobRegister ex_X (ex_eval EvalTriggerJobRegister) (ex_run ex_refresh 0) =
     Some (ReturnErr (MaxAttemptsReached 5), ex_run ex_refresh 5)"
proof -
  let ?e = "ex_eval EvalTriggerJobRegister"
  have five: "afterRestarts ex_X ?e maxScheduleAttempts (ex_run ex_refresh 0) =
              Some (ex_run ex_refresh 5)"
    by (simp add: ex_afterRestarts maxScheduleAttempts_def)
  have "(\<exists>r n s'. handleJobRegister_START ex_X ?e 0 (ex_run ex_refresh 0) = Some (r, n, s') \<and>
                    n \<le> maxScheduleAttempts \<and>
                    handleJobRegister ex_X ?e (ex_run ex_refresh 0) = Some (r, s'))
       \<and> (\<forall>s'. afterRestarts ex_X ?e maxScheduleAttempts (ex_run ex_refresh 0) = Some s' \<longrightarrow>
                handleJobRegister ex_X ?e (ex_run ex_refresh 0) =
                  Some (ReturnErr (MaxAttemptsReached 5), s'))"
  proof (rule handleJobRegister_attempts_bounded)
    fix k s1 s2
    assume "afterRestarts ex_X ?e k (ex_run ex_refresh 0) = Some s1"
      and "registerAttempt ex_X ?e s1 = Delegate s2"
    then show "evictJobAllocs ?e s2 \<noteq> None"
      using ex_refresh_attempt[of EvalTriggerJobRegister k] by (auto simp: ex_afterRestarts)
  qed
  with five show ?thesis by blast
qed

text \<open>
  Claim C1 as stated ("the register path always terminates") fails: the job has
  no instance to run and three allocations, and the planner hands back the same
  snapshot on every submit. The first pass hands over to \<open>evictJobAllocs\<close>,
  which never returns.
\<close>

theorem handleJobRegister_always_terminates_counterexample:
  "handleJobRegister ex_X (ex_eval EvalTriggerJobRegister)
     (ex_sched ex_zero (SubmitOk (ex_result True) (Some ex_zero))) = None"
proof -
  let ?s = "ex_sched ex_zero (SubmitOk (ex_result True) (Some ex_zero))"
  have "evictJobAllocs (ex_eval EvalTriggerJobRegister) ?s = None"
    by (rule evictJobAllocs_diverges[where allocs = ex_allocs])
       (simp_all add: ex_zero_def ex_allocs_def)
  then show ?thesis
    by (simp add: handleJobRegister_def START_Delegate[OF _ ex_zero_delegates]
          maxScheduleAttempts_def)
qed

end
